theory Spec2Isabelle
  imports Main "HOL-Library.Sublist"
begin

section \<open>The search command of GRUB (commands/search.c)\<close>

text \<open>
  A shallow embedding of \<^verbatim>\<open>commands/search.c\<close>. The command walks over the devices
  the platform enumerates and tests each one by filesystem label, by filesystem UUID or
  by the presence of a file. The platform (device enumeration, device and file opening,
  filesystem probing, the allocator) is a parameter; the global error number, the
  variable store, the terminal and the opened resources are an explicit state.
\<close>

subsection \<open>Error numbers\<close>

text \<open>
  Modelled from the spec: the enumeration \<^verbatim>\<open>grub_err_t\<close> of \<^verbatim>\<open>grub/err.h\<close>, which is
  not part of the sources at hand. The four values this file names are kept; every
  other error number of the platform is \<open>GRUB_ERR_OTHER n\<close>.
\<close>

datatype grub_err_t =
    GRUB_ERR_NONE
  | GRUB_ERR_OUT_OF_MEMORY
  | GRUB_ERR_FILE_NOT_FOUND
  | GRUB_ERR_INVALID_COMMAND
  | GRUB_ERR_OTHER nat

subsection \<open>The platform\<close>

text \<open>Device and file handles are opaque; a handle is a number.\<close>

type_synonym grub_device_t = nat
type_synonym grub_file_t = nat

text \<open>
  A filesystem driver: \<open>label\<close> and \<open>uuid\<close> are the two accessors a driver may lack
  (a null function pointer is \<open>None\<close>). An accessor returns its error number, which it
  has raised in \<^verbatim>\<open>grub_errno\<close> when it is not \<open>GRUB_ERR_NONE\<close>, and the string it stored
  through its second argument (\<open>None\<close> for a null pointer).
\<close>

record grub_fs =
  label :: "(grub_device_t \<Rightarrow> grub_err_t \<times> string option) option"
  uuid :: "(grub_device_t \<Rightarrow> grub_err_t \<times> string option) option"

text \<open>
  The external collaborators of the command. A failing open or probe returns a null
  pointer, \<open>Inl e\<close>, where \<open>e\<close> is the error it raised (\<open>GRUB_ERR_NONE\<close> when it raised
  none). \<open>realloc_ok i n\<close> tells whether the \<open>i\<close>-th request to the allocator, for \<open>n\<close>
  bytes, succeeds.
\<close>

record platform =
  devices :: "string list"
  device_open :: "string \<Rightarrow> grub_err_t + grub_device_t"
  fs_probe :: "grub_device_t \<Rightarrow> grub_err_t + grub_fs"
  file_open :: "string \<Rightarrow> grub_err_t + grub_file_t"
  realloc_ok :: "nat \<Rightarrow> nat \<Rightarrow> bool"

subsection \<open>The state\<close>

datatype access = DeviceOpen string | FileOpen string

text \<open>
  \<open>grub_errno\<close> is the global error number; \<open>grub_errmsg\<close> the message of the last
  \<^verbatim>\<open>grub_error\<close> call of this file; \<open>env\<close> the calls of \<^verbatim>\<open>grub_env_set\<close>, oldest
  first; \<open>out\<close> the characters printed; \<open>touched\<close> the devices and files that were
  asked to be opened, oldest first; \<open>mm_calls\<close> the number of requests made to the
  allocator. Closing a device or a file and freeing a string change none of these, so
  \<^verbatim>\<open>grub_device_close\<close>, \<^verbatim>\<open>grub_file_close\<close> and \<^verbatim>\<open>grub_free\<close> have no counterpart
  here.
\<close>

record machine =
  grub_errno :: grub_err_t
  grub_errmsg :: string
  env :: "(string \<times> string) list"
  out :: string
  touched :: "access list"
  mm_calls :: nat

definition grub_error :: "grub_err_t \<Rightarrow> string \<Rightarrow> machine \<Rightarrow> grub_err_t \<times> machine" where
  "grub_error n msg s = (n, s\<lparr>grub_errno := n, grub_errmsg := msg\<rparr>)"

text \<open>What a failing platform call leaves behind: the error it raised, if any.\<close>

definition raised :: "grub_err_t \<Rightarrow> machine \<Rightarrow> machine" where
  "raised e s = (if e = GRUB_ERR_NONE then s else s\<lparr>grub_errno := e\<rparr>)"

text \<open>
  The callers ignore what \<^verbatim>\<open>grub_env_set\<close> returns, and clear the error number right
  after it; the call itself is what is recorded.
\<close>

definition grub_env_set :: "string \<Rightarrow> string \<Rightarrow> machine \<Rightarrow> machine" where
  "grub_env_set var val s = s\<lparr>env := env s @ [(var, val)]\<rparr>"

definition grub_printf :: "string \<Rightarrow> machine \<Rightarrow> machine" where
  "grub_printf str s = s\<lparr>out := out s @ str\<rparr>"

definition grub_device_open :: "platform \<Rightarrow> string \<Rightarrow> machine \<Rightarrow> (grub_err_t + grub_device_t) \<times> machine" where
  "grub_device_open P name s =
     (let s1 = s\<lparr>touched := touched s @ [DeviceOpen name]\<rparr> in
      case device_open P name of
        Inl e \<Rightarrow> (Inl e, raised e s1)
      | Inr dev \<Rightarrow> (Inr dev, s1))"

definition grub_file_open :: "platform \<Rightarrow> string \<Rightarrow> machine \<Rightarrow> (grub_err_t + grub_file_t) \<times> machine" where
  "grub_file_open P path s =
     (let s1 = s\<lparr>touched := touched s @ [FileOpen path]\<rparr> in
      case file_open P path of
        Inl e \<Rightarrow> (Inl e, raised e s1)
      | Inr file \<Rightarrow> (Inr file, s1))"

text \<open>
  The allocator fails by raising \<open>GRUB_ERR_OUT_OF_MEMORY\<close> and returning a null
  pointer (\<open>False\<close>).
\<close>

definition grub_realloc :: "platform \<Rightarrow> nat \<Rightarrow> machine \<Rightarrow> bool \<times> machine" where
  "grub_realloc P n s =
     (let s1 = s\<lparr>mm_calls := Suc (mm_calls s)\<rparr> in
      if realloc_ok P (mm_calls s) n then (True, s1)
      else (False, s1\<lparr>grub_errno := GRUB_ERR_OUT_OF_MEMORY\<rparr>))"

text \<open>
  Modelled from the spec: the device enumerator \<^verbatim>\<open>grub_device_iterate\<close>, whose code
  is not part of the sources at hand. It calls the hook on the device names in their
  order and stops as soon as the hook returns a non-zero value. \<open>c\<close> holds the variables
  of the enclosing function that the hook, a nested function, updates.
\<close>

fun grub_device_iterate ::
  "(string \<Rightarrow> 'c \<Rightarrow> machine \<Rightarrow> bool \<times> 'c \<times> machine) \<Rightarrow> string list \<Rightarrow> 'c \<Rightarrow> machine
     \<Rightarrow> bool \<times> 'c \<times> machine" where
  "grub_device_iterate hook [] c s = (False, c, s)"
| "grub_device_iterate hook (name # names) c s =
     (case hook name c s of
        (abort, c', s') \<Rightarrow>
          if abort then (True, c', s') else grub_device_iterate hook names c' s')"

subsection \<open>C strings\<close>

text \<open>
  A C string is the list of its characters before the terminating NUL; \<open>c_at name i\<close>
  is \<^verbatim>\<open>name[i]\<close>, which reads the terminator at \<open>i = length name\<close>.
\<close>

definition c_at :: "string \<Rightarrow> nat \<Rightarrow> char" where
  "c_at name i = (if i < length name then name ! i else CHR 0x00)"

definition grub_strlen :: "string \<Rightarrow> nat" where
  "grub_strlen str = length str"

subsection \<open>Skipping floppy drives\<close>

text \<open>
  The test of lines 61 to 63 and 127 to 129, the same in both hooks, without the
  \<^verbatim>\<open>no_floppy\<close> flag. The comparisons are those of the character codes; a code
  above 127 fails one of the two whether \<^verbatim>\<open>char\<close> is signed or not. The operator
  \<^verbatim>\<open>&&\<close> reads \<^verbatim>\<open>name[i]\<close> only when the characters before it matched, so never
  past the terminator.
\<close>

definition is_floppy :: "string \<Rightarrow> bool" where
  "is_floppy name \<longleftrightarrow>
     c_at name 0 = CHR ''f'' \<and> c_at name 1 = CHR ''d'' \<and>
     (of_char (c_at name 2) :: nat) \<ge> of_char CHR ''0'' \<and>
     (of_char (c_at name 2) :: nat) \<le> of_char CHR ''9''"

subsection \<open>Searching by label or UUID\<close>

definition QUID ::
  "bool \<Rightarrow> grub_fs \<Rightarrow> (grub_device_t \<Rightarrow> grub_err_t \<times> string option) option" where
  "QUID is_uuid x = (if is_uuid then uuid x else label x)"

text \<open>
  What both hooks do on a match, after counting it (lines 86 to 92 and 145 to 151): with
  a variable, bind it to the device name and ask for an abort; without, print the name
  after a space.
\<close>

definition found :: "string option \<Rightarrow> string \<Rightarrow> machine \<Rightarrow> bool \<times> machine" where
  "found var name s =
     (case var of
        Some v \<Rightarrow> (True, grub_env_set v name s)
      | None \<Rightarrow> (False, grub_printf ('' '' @ name) s))"

text \<open>
  The hook of \<^verbatim>\<open>search_fs\<close>. The variable of the enclosing function it updates is
  \<^verbatim>\<open>count\<close>, a natural number here (the C \<^verbatim>\<open>int\<close> cannot overflow before
  \<open>2\<^sup>3\<^sup>1\<close> devices have matched). The inner \<open>case\<close> is the body up to line 100,
  the outer one the reset of line 102.
\<close>

definition search_fs_iterate_device ::
  "platform \<Rightarrow> string \<Rightarrow> string option \<Rightarrow> bool \<Rightarrow> bool \<Rightarrow> string \<Rightarrow> nat \<Rightarrow> machine
     \<Rightarrow> bool \<times> nat \<times> machine" where
  "search_fs_iterate_device P key var no_floppy is_uuid name count s =
     (if no_floppy \<and> is_floppy name then (False, count, s)
      else
        case
          (case grub_device_open P name s of
             (Inl e, s1) \<Rightarrow> (False, count, s1)
           | (Inr dev, s1) \<Rightarrow>
               (case fs_probe P dev of
                  Inl e \<Rightarrow> (False, count, raised e s1)
                | Inr fs \<Rightarrow>
                    (case QUID is_uuid fs of
                       None \<Rightarrow> (False, count, s1)
                     | Some get \<Rightarrow>
                         (case get dev of
                            (e, quid) \<Rightarrow>
                              let s2 = raised e s1 in
                              if grub_errno s2 = GRUB_ERR_NONE \<and> quid \<noteq> None then
                                if the quid = key then
                                  (case found var name s2 of
                                     (abort, s3) \<Rightarrow> (abort, Suc count, s3))
                                else (False, count, s2)
                              else (False, count, s2)))))
        of (abort, count', s') \<Rightarrow> (abort, count', s'\<lparr>grub_errno := GRUB_ERR_NONE\<rparr>))"

text \<open>Line 106: the enumeration, started with \<^verbatim>\<open>count = 0\<close>.\<close>

definition search_fs_enumerate ::
  "platform \<Rightarrow> string \<Rightarrow> string option \<Rightarrow> bool \<Rightarrow> bool \<Rightarrow> machine \<Rightarrow> bool \<times> nat \<times> machine" where
  "search_fs_enumerate P key var no_floppy is_uuid s =
     grub_device_iterate (search_fs_iterate_device P key var no_floppy is_uuid) (devices P) 0 s"

definition search_fs ::
  "platform \<Rightarrow> string \<Rightarrow> string option \<Rightarrow> bool \<Rightarrow> bool \<Rightarrow> machine \<Rightarrow> machine" where
  "search_fs P key var no_floppy is_uuid s =
     (case search_fs_enumerate P key var no_floppy is_uuid s of
        (aborted, count, s1) \<Rightarrow>
          if count = 0
          then snd (grub_error GRUB_ERR_FILE_NOT_FOUND (''no such device: '' @ key) s1)
          else s1)"

subsection \<open>Searching by file\<close>

text \<open>\<^verbatim>\<open>grub_sprintf (buf, "(%s)%s", name, key)\<close>: the characters written to the buffer.\<close>

definition device_path :: "string \<Rightarrow> string \<Rightarrow> string" where
  "device_path name key = ''('' @ name @ '')'' @ key"

text \<open>
  The hook of \<^verbatim>\<open>search_file\<close>. The variables of the enclosing function are the pair
  of \<^verbatim>\<open>count\<close> and the contents of \<^verbatim>\<open>buf\<close> (\<open>None\<close> while it is a null pointer).
  When the allocator fails the hook returns 1 at line 135, before the reset of line 156.
\<close>

definition search_file_iterate_device ::
  "platform \<Rightarrow> string \<Rightarrow> string option \<Rightarrow> bool \<Rightarrow> string \<Rightarrow> nat \<times> string option \<Rightarrow> machine
     \<Rightarrow> bool \<times> (nat \<times> string option) \<times> machine" where
  "search_file_iterate_device P key var no_floppy name c s =
     (case c of
        (count, buf) \<Rightarrow>
          if no_floppy \<and> is_floppy name then (False, (count, buf), s)
          else
            let len = grub_strlen name + 2 + grub_strlen key + 1 in
            (case grub_realloc P len s of
               (False, s1) \<Rightarrow> (True, (count, buf), s1)
             | (True, s1) \<Rightarrow>
                 let buf' = device_path name key in
                 (case grub_file_open P buf' s1 of
                    (Inr file, s2) \<Rightarrow>
                      (case found var name s2 of
                         (abort, s3) \<Rightarrow>
                           (abort, (Suc count, Some buf'), s3\<lparr>grub_errno := GRUB_ERR_NONE\<rparr>))
                  | (Inl e, s2) \<Rightarrow>
                      (False, (count, Some buf'), s2\<lparr>grub_errno := GRUB_ERR_NONE\<rparr>))))"

text \<open>Line 160: the enumeration, started with \<^verbatim>\<open>count = 0\<close> and \<^verbatim>\<open>buf = 0\<close>.\<close>

definition search_file_enumerate ::
  "platform \<Rightarrow> string \<Rightarrow> string option \<Rightarrow> bool \<Rightarrow> machine
     \<Rightarrow> bool \<times> (nat \<times> string option) \<times> machine" where
  "search_file_enumerate P key var no_floppy s =
     grub_device_iterate (search_file_iterate_device P key var no_floppy) (devices P) (0, None) s"

definition search_file ::
  "platform \<Rightarrow> string \<Rightarrow> string option \<Rightarrow> bool \<Rightarrow> machine \<Rightarrow> machine" where
  "search_file P key var no_floppy s =
     (case search_file_enumerate P key var no_floppy s of
        (aborted, (count, buf), s1) \<Rightarrow>
          if grub_errno s1 = GRUB_ERR_NONE \<and> count = 0
          then snd (grub_error GRUB_ERR_FILE_NOT_FOUND (''no such file: '' @ key) s1)
          else s1)"

subsection \<open>The command\<close>

datatype options = SEARCH_FILE | SEARCH_LABEL | SEARCH_FS_UUID | SEARCH_SET | SEARCH_NO_FLOPPY

text \<open>
  One entry of the parsed options (\<^verbatim>\<open>struct grub_arg_list\<close>): whether the option was
  given (the field \<^verbatim>\<open>set\<close>) and its argument, if any.
\<close>

record grub_arg_list =
  is_set :: bool
  arg :: "string option"

definition grub_cmd_search ::
  "platform \<Rightarrow> (options \<Rightarrow> grub_arg_list) \<Rightarrow> string list \<Rightarrow> machine \<Rightarrow> grub_err_t \<times> machine" where
  "grub_cmd_search P state args s =
     (if length args = 0 then grub_error GRUB_ERR_INVALID_COMMAND ''no argument specified'' s
      else
        let var =
          (if is_set (state SEARCH_SET)
           then Some (case arg (state SEARCH_SET) of Some a \<Rightarrow> a | None \<Rightarrow> ''root'')
           else None)
        in
        if is_set (state SEARCH_LABEL) then
          (let s' = search_fs P (args ! 0) var (is_set (state SEARCH_NO_FLOPPY)) False s
           in (grub_errno s', s'))
        else if is_set (state SEARCH_FS_UUID) then
          (let s' = search_fs P (args ! 0) var (is_set (state SEARCH_NO_FLOPPY)) True s
           in (grub_errno s', s'))
        else if is_set (state SEARCH_FILE) then
          (let s' = search_file P (args ! 0) var (is_set (state SEARCH_NO_FLOPPY)) s
           in (grub_errno s', s'))
        else grub_error GRUB_ERR_INVALID_COMMAND ''unspecified search type'' s)"

subsection \<open>What the specification speaks of\<close>

text \<open>A device is skipped when floppy drives are excluded and its name is a floppy name.\<close>

definition skipped :: "bool \<Rightarrow> string \<Rightarrow> bool" where
  "skipped no_floppy name \<longleftrightarrow> no_floppy \<and> is_floppy name"

definition candidates :: "bool \<Rightarrow> string list \<Rightarrow> string list" where
  "candidates no_floppy names = filter (\<lambda>name. \<not> skipped no_floppy name) names"

text \<open>
  The attribute of a device that label and UUID mode test: the string its filesystem
  driver reads without an error, if the device opens, a filesystem is recognised and the
  driver has the accessor.
\<close>

definition fs_attribute :: "platform \<Rightarrow> bool \<Rightarrow> string \<Rightarrow> string option" where
  "fs_attribute P is_uuid name =
     (case device_open P name of
        Inl e \<Rightarrow> None
      | Inr dev \<Rightarrow>
          (case fs_probe P dev of
             Inl e \<Rightarrow> None
           | Inr fs \<Rightarrow>
               (case QUID is_uuid fs of
                  None \<Rightarrow> None
                | Some get \<Rightarrow>
                    (case get dev of (e, quid) \<Rightarrow> if e = GRUB_ERR_NONE then quid else None))))"

text \<open>File mode tests whether the file named by the key opens on the device.\<close>

definition file_present :: "platform \<Rightarrow> string \<Rightarrow> string \<Rightarrow> bool" where
  "file_present P key name =
     (case file_open P (''('' @ name @ '')'' @ key) of Inl e \<Rightarrow> False | Inr file \<Rightarrow> True)"

text \<open>The printed form of a list of device names: each one after a single space.\<close>

definition emitted :: "string list \<Rightarrow> string" where
  "emitted names = concat (map (\<lambda>name. '' '' @ name) names)"

text \<open>The elements of a list up to and including the first one that satisfies \<open>p\<close>.\<close>

definition upto_first :: "('a \<Rightarrow> bool) \<Rightarrow> 'a list \<Rightarrow> 'a list" where
  "upto_first p xs = takeWhile (\<lambda>x. \<not> p x) xs @ take 1 (dropWhile (\<lambda>x. \<not> p x) xs)"

subsection \<open>A platform to run the command on\<close>

text \<open>
  Three devices. \<^verbatim>\<open>hd0\<close> holds a filesystem labelled \<^verbatim>\<open>BOOT\<close> whose driver has no UUID
  accessor; \<^verbatim>\<open>hd1\<close> holds one labelled \<^verbatim>\<open>MYUSB\<close> with UUID \<^verbatim>\<open>ABCD-1234\<close> and the file
  \<^verbatim>\<open>/grub.cfg\<close>; the floppy \<^verbatim>\<open>fd0\<close> opens, holds no known filesystem, and the file
  \<^verbatim>\<open>/grub.cfg\<close> opens on it.
\<close>

definition demo_fs :: "nat \<Rightarrow> grub_err_t + grub_fs" where
  "demo_fs dev =
     (if dev = 0 then
        Inr \<lparr>label = Some (\<lambda>d. (GRUB_ERR_NONE, Some ''BOOT'')), uuid = None\<rparr>
      else if dev = 1 then
        Inr \<lparr>label = Some (\<lambda>d. (GRUB_ERR_NONE, Some ''MYUSB'')),
             uuid = Some (\<lambda>d. (GRUB_ERR_NONE, Some ''ABCD-1234''))\<rparr>
      else Inl (GRUB_ERR_OTHER 1))"

definition demo_platform :: platform where
  "demo_platform =
     \<lparr>devices = [''hd0'', ''hd1'', ''fd0''],
      device_open = (\<lambda>name.
        if name = ''hd0'' then Inr 0 else if name = ''hd1'' then Inr 1
        else if name = ''fd0'' then Inr 2 else Inl (GRUB_ERR_OTHER 0)),
      fs_probe = demo_fs,
      file_open = (\<lambda>path.
        if path = ''(hd1)/grub.cfg'' then Inr 0 else if path = ''(fd0)/grub.cfg'' then Inr 1
        else Inl GRUB_ERR_FILE_NOT_FOUND),
      realloc_ok = (\<lambda>i n. True)\<rparr>"

text \<open>
  The same platform with an allocator that serves the first request and fails on every
  later one.
\<close>

definition demo_platform_lowmem :: platform where
  "demo_platform_lowmem = demo_platform\<lparr>realloc_ok := (\<lambda>i n. i = 0)\<rparr>"

text \<open>The state a command starts in: no error pending, nothing written, printed or opened.\<close>

definition fresh :: machine where
  "fresh = \<lparr>grub_errno = GRUB_ERR_NONE, grub_errmsg = [], env = [], out = [], touched = [],
            mm_calls = 0\<rparr>"

text \<open>
  The parsed options of a command line on which exactly the options \<open>given\<close> appear,
  \<^verbatim>\<open>--set\<close> with the argument \<open>var\<close> when it has one.
\<close>

definition parsed :: "options list \<Rightarrow> string option \<Rightarrow> options \<Rightarrow> grub_arg_list" where
  "parsed given var opt =
     \<lparr>is_set = (opt \<in> set given), arg = (if opt = SEARCH_SET then var else None)\<rparr>"

section \<open>Properties\<close>

subsection \<open>Evaluation\<close>

lemmas search_defs =
  grub_cmd_search_def search_fs_def search_fs_enumerate_def search_fs_iterate_device_def
  search_file_def search_file_enumerate_def search_file_iterate_device_def
  grub_error_def raised_def grub_env_set_def grub_printf_def grub_device_open_def
  grub_file_open_def grub_realloc_def grub_strlen_def device_path_def found_def QUID_def
  is_floppy_def c_at_def Let_def

lemmas demo_defs =
  demo_platform_def demo_fs_def fresh_def parsed_def

subsection \<open>The floppy test\<close>

lemma digit_codes:
  "(of_char CHR ''0'' \<le> (of_char c :: nat) \<and> (of_char c :: nat) \<le> of_char CHR ''9'') \<longleftrightarrow>
     c \<in> set ''0123456789''"
proof
  assume "c \<in> set ''0123456789''"
  then show "of_char CHR ''0'' \<le> (of_char c :: nat) \<and> (of_char c :: nat) \<le> of_char CHR ''9''"
    by auto
next
  assume a: "of_char CHR ''0'' \<le> (of_char c :: nat) \<and> (of_char c :: nat) \<le> of_char CHR ''9''"
  have eq: "\<And>d. (of_char c :: nat) = of_char d \<Longrightarrow> c = d"
    by (simp only: of_char_eq_iff)
  from a have "48 \<le> (of_char c :: nat) \<and> (of_char c :: nat) \<le> 57" by simp
  then have "(of_char c :: nat) \<in> {48, 49, 50, 51, 52, 53, 54, 55, 56, 57}"
    by simp arith
  then have "(of_char c :: nat) \<in> of_char ` set ''0123456789''" by simp
  then show "c \<in> set ''0123456789''" using eq by blast
qed

lemma is_floppy_iff:
  "is_floppy name \<longleftrightarrow>
     3 \<le> length name \<and> name ! 0 = CHR ''f'' \<and> name ! 1 = CHR ''d'' \<and>
     name ! 2 \<in> set ''0123456789''"
proof (cases "3 \<le> length name")
  case True
  then have "0 < length name" "1 < length name" "2 < length name" by auto
  then show ?thesis
    unfolding is_floppy_def c_at_def using True digit_codes [of "name ! 2"] by simp
next
  case False
  then have "length name < 3" by simp
  then have "c_at name 0 = CHR 0x00 \<or> c_at name 1 = CHR 0x00 \<or> c_at name 2 = CHR 0x00"
    unfolding c_at_def by auto
  then have "\<not> is_floppy name"
    unfolding is_floppy_def by auto
  then show ?thesis using False by simp
qed

subsection \<open>One call of a hook\<close>

lemma errno_same: "grub_errno s = e \<Longrightarrow> s\<lparr>grub_errno := e\<rparr> = s"
  by (cases s) simp

lemma fs_hook_skip:
  "skipped no_floppy name \<Longrightarrow>
   search_fs_iterate_device P key var no_floppy is_uuid name count s = (False, count, s)"
  by (simp add: search_fs_iterate_device_def skipped_def)

lemma fs_hook_hit:
  assumes "\<not> skipped no_floppy name" "grub_errno s = GRUB_ERR_NONE"
    "fs_attribute P is_uuid name = Some key"
  shows "search_fs_iterate_device P key var no_floppy is_uuid name count s =
     (case found var name (s\<lparr>touched := touched s @ [DeviceOpen name]\<rparr>) of
        (abort, s3) \<Rightarrow> (abort, Suc count, s3))"
  using assms
  by (auto simp: skipped_def search_fs_iterate_device_def fs_attribute_def grub_device_open_def
      raised_def found_def grub_env_set_def grub_printf_def errno_same Let_def
      split: sum.splits option.splits if_splits prod.splits)

lemma fs_hook_miss:
  assumes "\<not> skipped no_floppy name" "grub_errno s = GRUB_ERR_NONE"
    "fs_attribute P is_uuid name \<noteq> Some key"
  shows "search_fs_iterate_device P key var no_floppy is_uuid name count s =
     (False, count, s\<lparr>touched := touched s @ [DeviceOpen name]\<rparr>)"
  using assms
  by (auto simp: skipped_def search_fs_iterate_device_def fs_attribute_def grub_device_open_def
      raised_def errno_same Let_def
      split: sum.splits option.splits if_splits prod.splits)

subsection \<open>The enumeration in label and UUID mode\<close>

lemma upto_first_simps [simp]:
  "upto_first p [] = []"
  "upto_first p (x # xs) = (if p x then [x] else x # upto_first p xs)"
  by (simp_all add: upto_first_def)

lemma emitted_simps [simp]:
  "emitted [] = []"
  "emitted (n # ns) = '' '' @ n @ emitted ns"
  by (simp_all add: emitted_def)

lemma candidates_simps [simp]:
  "candidates nf [] = []"
  "candidates nf (n # ns) = (if skipped nf n then candidates nf ns else n # candidates nf ns)"
  by (simp_all add: candidates_def)

lemma fs_iterate_print:
  assumes "grub_errno s = GRUB_ERR_NONE"
  shows "grub_device_iterate (search_fs_iterate_device P key None no_floppy is_uuid) names count s =
     (False,
      count + length (filter (\<lambda>n. fs_attribute P is_uuid n = Some key) (candidates no_floppy names)),
      s\<lparr>touched := touched s @ map DeviceOpen (candidates no_floppy names),
        out := out s @ emitted (filter (\<lambda>n. fs_attribute P is_uuid n = Some key) (candidates no_floppy names))\<rparr>)"
  using assms
proof (induction names arbitrary: count s)
  case Nil
  then show ?case by simp
next
  case (Cons n ns)
  show ?case
  proof (cases "skipped no_floppy n")
    case True
    then show ?thesis using Cons by (simp add: fs_hook_skip)
  next
    case nskip: False
    show ?thesis
    proof (cases "fs_attribute P is_uuid n = Some key")
      case True
      then show ?thesis using nskip Cons.prems
        by (simp add: fs_hook_hit found_def grub_printf_def Cons.IH)
    next
      case False
      then show ?thesis using nskip Cons.prems
        by (simp add: fs_hook_miss Cons.IH)
    qed
  qed
qed

lemma fs_iterate_bind:
  assumes "grub_errno s = GRUB_ERR_NONE"
  shows "grub_device_iterate (search_fs_iterate_device P key (Some v) no_floppy is_uuid) names count s =
     (case find (\<lambda>n. fs_attribute P is_uuid n = Some key) (candidates no_floppy names) of
        None \<Rightarrow> (False, count, s\<lparr>touched := touched s @ map DeviceOpen (candidates no_floppy names)\<rparr>)
      | Some d \<Rightarrow> (True, Suc count,
          s\<lparr>touched := touched s @ map DeviceOpen
               (upto_first (\<lambda>n. fs_attribute P is_uuid n = Some key) (candidates no_floppy names)),
            env := env s @ [(v, d)]\<rparr>))"
  using assms
proof (induction names arbitrary: count s)
  case Nil
  then show ?case by simp
next
  case (Cons n ns)
  show ?case
  proof (cases "skipped no_floppy n")
    case True
    then show ?thesis using Cons by (simp add: fs_hook_skip split: option.splits)
  next
    case nskip: False
    show ?thesis
    proof (cases "fs_attribute P is_uuid n = Some key")
      case True
      then show ?thesis using nskip Cons.prems
        by (simp add: fs_hook_hit found_def grub_env_set_def)
    next
      case False
      then show ?thesis using nskip Cons.prems
        by (simp add: fs_hook_miss Cons.IH split: option.splits)
    qed
  qed
qed

subsection \<open>The enumeration in file mode\<close>

lemma file_hook_skip:
  "skipped no_floppy name \<Longrightarrow>
   search_file_iterate_device P key var no_floppy name c s = (False, c, s)"
  by (simp add: search_file_iterate_device_def skipped_def split: prod.splits)

lemma file_hook_nomem:
  assumes "\<not> skipped no_floppy name"
    "\<not> realloc_ok P (mm_calls s) (length name + 2 + length key + 1)"
  shows "search_file_iterate_device P key var no_floppy name (count, buf) s =
     (True, (count, buf), s\<lparr>grub_errno := GRUB_ERR_OUT_OF_MEMORY, mm_calls := Suc (mm_calls s)\<rparr>)"
  using assms
  by (simp add: search_file_iterate_device_def skipped_def grub_realloc_def grub_strlen_def)

lemma file_hook_hit:
  assumes "\<not> skipped no_floppy name"
    "realloc_ok P (mm_calls s) (length name + 2 + length key + 1)"
    "file_present P key name"
  shows "search_file_iterate_device P key var no_floppy name (count, buf) s =
     (case found var name
        (s\<lparr>grub_errno := GRUB_ERR_NONE, touched := touched s @ [FileOpen (''('' @ name @ '')'' @ key)],
           mm_calls := Suc (mm_calls s)\<rparr>) of
        (abort, s3) \<Rightarrow> (abort, (Suc count, Some (''('' @ name @ '')'' @ key)), s3))"
  using assms
  by (auto simp: search_file_iterate_device_def skipped_def grub_realloc_def grub_strlen_def
      grub_file_open_def file_present_def device_path_def found_def grub_env_set_def
      grub_printf_def Let_def
      split: sum.splits option.splits)

lemma file_hook_miss:
  assumes "\<not> skipped no_floppy name"
    "realloc_ok P (mm_calls s) (length name + 2 + length key + 1)"
    "\<not> file_present P key name"
  shows "search_file_iterate_device P key var no_floppy name (count, buf) s =
     (False, (count, Some (''('' @ name @ '')'' @ key)),
      s\<lparr>grub_errno := GRUB_ERR_NONE, touched := touched s @ [FileOpen (''('' @ name @ '')'' @ key)],
        mm_calls := Suc (mm_calls s)\<rparr>)"
  using assms
  by (auto simp: search_file_iterate_device_def skipped_def grub_realloc_def grub_strlen_def
      grub_file_open_def file_present_def device_path_def raised_def Let_def
      split: sum.splits option.splits)

lemma file_iterate_print:
  assumes "\<forall>i n. realloc_ok P i n"
    and "grub_device_iterate (search_file_iterate_device P key None no_floppy) names (count, buf) s
           = (aborted, (count', buf'), s')"
  shows "\<not> aborted \<and>
     count' = count + length (filter (file_present P key) (candidates no_floppy names)) \<and>
     out s' = out s @ emitted (filter (file_present P key) (candidates no_floppy names)) \<and>
     env s' = env s \<and>
     touched s' = touched s @ map (\<lambda>n. FileOpen (''('' @ n @ '')'' @ key)) (candidates no_floppy names) \<and>
     (grub_errno s = GRUB_ERR_NONE \<longrightarrow> grub_errno s' = GRUB_ERR_NONE)"
  using assms(2)
proof (induction names arbitrary: count buf s)
  case Nil
  then show ?case by simp
next
  case (Cons n ns)
  let ?hook = "search_file_iterate_device P key None no_floppy"
  have ok: "realloc_ok P (mm_calls s) (length n + 2 + length key + 1)"
    using assms(1) by blast
  show ?case
  proof (cases "skipped no_floppy n")
    case True
    then have "grub_device_iterate ?hook ns (count, buf) s = (aborted, (count', buf'), s')"
      using Cons.prems by (simp add: file_hook_skip)
    from Cons.IH [OF this] show ?thesis using True by simp
  next
    case nskip: False
    show ?thesis
    proof (cases "file_present P key n")
      case True
      then have "grub_device_iterate ?hook ns (Suc count, Some (''('' @ n @ '')'' @ key))
          (grub_printf ('' '' @ n) (s\<lparr>grub_errno := GRUB_ERR_NONE,
             touched := touched s @ [FileOpen (''('' @ n @ '')'' @ key)],
             mm_calls := Suc (mm_calls s)\<rparr>)) = (aborted, (count', buf'), s')"
        using nskip ok Cons.prems by (simp add: file_hook_hit found_def)
      from Cons.IH [OF this] show ?thesis using True nskip
        by (simp add: grub_printf_def)
    next
      case False
      then have "grub_device_iterate ?hook ns (count, Some (''('' @ n @ '')'' @ key))
          (s\<lparr>grub_errno := GRUB_ERR_NONE,
             touched := touched s @ [FileOpen (''('' @ n @ '')'' @ key)],
             mm_calls := Suc (mm_calls s)\<rparr>) = (aborted, (count', buf'), s')"
        using nskip ok Cons.prems by (simp add: file_hook_miss)
      from Cons.IH [OF this] show ?thesis using False nskip by simp
    qed
  qed
qed

lemma file_iterate_bind:
  assumes "\<forall>i n. realloc_ok P i n"
    and "grub_device_iterate (search_file_iterate_device P key (Some v) no_floppy) names (count, buf) s
           = (aborted, (count', buf'), s')"
  shows "out s' = out s \<and>
     touched s' = touched s @ map (\<lambda>n. FileOpen (''('' @ n @ '')'' @ key))
        (upto_first (file_present P key) (candidates no_floppy names)) \<and>
     (case find (file_present P key) (candidates no_floppy names) of
        None \<Rightarrow> \<not> aborted \<and> count' = count \<and> env s' = env s
      | Some d \<Rightarrow> aborted \<and> count' = Suc count \<and> env s' = env s @ [(v, d)]) \<and>
     (grub_errno s = GRUB_ERR_NONE \<longrightarrow> grub_errno s' = GRUB_ERR_NONE)"
  using assms(2)
proof (induction names arbitrary: count buf s)
  case Nil
  then show ?case by simp
next
  case (Cons n ns)
  let ?hook = "search_file_iterate_device P key (Some v) no_floppy"
  have ok: "realloc_ok P (mm_calls s) (length n + 2 + length key + 1)"
    using assms(1) by blast
  show ?case
  proof (cases "skipped no_floppy n")
    case True
    then have "grub_device_iterate ?hook ns (count, buf) s = (aborted, (count', buf'), s')"
      using Cons.prems by (simp add: file_hook_skip)
    from Cons.IH [OF this] show ?thesis using True by (simp split: option.splits)
  next
    case nskip: False
    show ?thesis
    proof (cases "file_present P key n")
      case True
      then show ?thesis using nskip ok Cons.prems
        by (auto simp add: file_hook_hit found_def grub_env_set_def)
    next
      case False
      then have "grub_device_iterate ?hook ns (count, Some (''('' @ n @ '')'' @ key))
          (s\<lparr>grub_errno := GRUB_ERR_NONE,
             touched := touched s @ [FileOpen (''('' @ n @ '')'' @ key)],
             mm_calls := Suc (mm_calls s)\<rparr>) = (aborted, (count', buf'), s')"
        using nskip ok Cons.prems by (simp add: file_hook_miss)
      from Cons.IH [OF this] show ?thesis using False nskip by (simp split: option.splits)
    qed
  qed
qed

lemma file_hook_errno:
  assumes "search_file_iterate_device P key var no_floppy name c s = (abort, c', s')"
  shows "grub_errno s' = grub_errno s \<or> grub_errno s' = GRUB_ERR_NONE \<or>
         grub_errno s' = GRUB_ERR_OUT_OF_MEMORY"
  using assms
  by (auto simp: search_file_iterate_device_def grub_realloc_def grub_file_open_def found_def
      grub_env_set_def grub_printf_def raised_def Let_def
      split: prod.splits if_splits sum.splits option.splits bool.splits)

lemma file_iterate_errno:
  assumes "grub_device_iterate (search_file_iterate_device P key var no_floppy) names c s
           = (aborted, c', s')"
  shows "grub_errno s' = grub_errno s \<or> grub_errno s' = GRUB_ERR_NONE \<or>
         grub_errno s' = GRUB_ERR_OUT_OF_MEMORY"
  using assms
proof (induction names arbitrary: c s)
  case Nil
  then show ?case by simp
next
  case (Cons n ns)
  obtain a c1 s1 where h: "search_file_iterate_device P key var no_floppy n c s = (a, c1, s1)"
    by (metis prod_cases3)
  note e1 = file_hook_errno [OF h]
  show ?case
  proof (cases a)
    case True
    then show ?thesis using Cons.prems h e1 by simp
  next
    case False
    then have "grub_device_iterate (search_file_iterate_device P key var no_floppy) ns c1 s1
        = (aborted, c', s')"
      using Cons.prems h by simp
    from Cons.IH [OF this] show ?thesis using e1 by auto
  qed
qed

lemma file_iterate_bind_any:
  assumes "grub_device_iterate (search_file_iterate_device P key (Some v) no_floppy) names (count, buf) s
           = (aborted, (count', buf'), s')"
  shows "out s' = out s \<and>
     (\<exists>ts. prefix ts (upto_first (file_present P key) (candidates no_floppy names)) \<and>
        touched s' = touched s @ map (\<lambda>n. FileOpen (''('' @ n @ '')'' @ key)) ts) \<and>
     (env s' = env s \<and> count' = count \<or>
      (\<exists>d. find (file_present P key) (candidates no_floppy names) = Some d \<and>
         env s' = env s @ [(v, d)] \<and> count' = Suc count))"
  using assms
proof (induction names arbitrary: count buf s)
  case Nil
  then show ?case by simp
next
  case (Cons n ns)
  let ?hook = "search_file_iterate_device P key (Some v) no_floppy"
  show ?case
  proof (cases "skipped no_floppy n")
    case True
    then have "grub_device_iterate ?hook ns (count, buf) s = (aborted, (count', buf'), s')"
      using Cons.prems by (simp add: file_hook_skip)
    from Cons.IH [OF this] show ?thesis using True by simp
  next
    case nskip: False
    show ?thesis
    proof (cases "realloc_ok P (mm_calls s) (length n + 2 + length key + 1)")
      case nomem: False
      then have "s' = s\<lparr>grub_errno := GRUB_ERR_OUT_OF_MEMORY, mm_calls := Suc (mm_calls s)\<rparr>"
        and "count' = count"
        using nskip Cons.prems by (simp_all add: file_hook_nomem)
      moreover have "prefix [] (upto_first (file_present P key) (candidates no_floppy (n # ns)))"
        by simp
      ultimately show ?thesis by force
    next
      case ok: True
      show ?thesis
      proof (cases "file_present P key n")
        case True
        then show ?thesis using nskip ok Cons.prems
          by (auto simp add: file_hook_hit found_def grub_env_set_def)
      next
        case False
        then have "grub_device_iterate ?hook ns (count, Some (''('' @ n @ '')'' @ key))
            (s\<lparr>grub_errno := GRUB_ERR_NONE,
               touched := touched s @ [FileOpen (''('' @ n @ '')'' @ key)],
               mm_calls := Suc (mm_calls s)\<rparr>) = (aborted, (count', buf'), s')"
          using nskip ok Cons.prems by (simp add: file_hook_miss)
        from Cons.IH [OF this] obtain ts where
          ts: "prefix ts (upto_first (file_present P key) (candidates no_floppy ns))"
            "touched s' = touched s @ FileOpen (''('' @ n @ '')'' @ key) #
                map (\<lambda>n. FileOpen (''('' @ n @ '')'' @ key)) ts"
          and rest: "out s' = out s"
            "env s' = env s \<and> count' = count \<or>
              (\<exists>d. find (file_present P key) (candidates no_floppy ns) = Some d \<and>
                 env s' = env s @ [(v, d)] \<and> count' = Suc count)"
          by auto
        have "prefix (n # ts) (upto_first (file_present P key) (candidates no_floppy (n # ns)))"
          using ts(1) False nskip by simp
        moreover have "touched s' = touched s @ map (\<lambda>n. FileOpen (''('' @ n @ '')'' @ key)) (n # ts)"
          using ts(2) by simp
        ultimately have "\<exists>ts. prefix ts (upto_first (file_present P key) (candidates no_floppy (n # ns))) \<and>
            touched s' = touched s @ map (\<lambda>n. FileOpen (''('' @ n @ '')'' @ key)) ts"
          by blast
        then show ?thesis using rest False nskip by simp
      qed
    qed
  qed
qed

lemma file_iterate_print_any:
  assumes "grub_device_iterate (search_file_iterate_device P key None no_floppy) names (count, buf) s
           = (aborted, (count', buf'), s')"
  shows "env s' = env s \<and>
     (\<exists>ts. prefix ts (candidates no_floppy names) \<and>
        out s' = out s @ emitted (filter (file_present P key) ts) \<and>
        count' = count + length (filter (file_present P key) ts) \<and>
        touched s' = touched s @ map (\<lambda>n. FileOpen (''('' @ n @ '')'' @ key)) ts)"
  using assms
proof (induction names arbitrary: count buf s)
  case Nil
  then show ?case by simp
next
  case (Cons n ns)
  let ?hook = "search_file_iterate_device P key None no_floppy"
  let ?p = "''('' @ n @ '')'' @ key"
  show ?case
  proof (cases "skipped no_floppy n")
    case True
    then have "grub_device_iterate ?hook ns (count, buf) s = (aborted, (count', buf'), s')"
      using Cons.prems by (simp add: file_hook_skip)
    from Cons.IH [OF this] show ?thesis using True by simp
  next
    case nskip: False
    show ?thesis
    proof (cases "realloc_ok P (mm_calls s) (length n + 2 + length key + 1)")
      case nomem: False
      then have "s' = s\<lparr>grub_errno := GRUB_ERR_OUT_OF_MEMORY, mm_calls := Suc (mm_calls s)\<rparr>"
        and "count' = count"
        using nskip Cons.prems by (simp_all add: file_hook_nomem)
      moreover have "prefix [] (candidates no_floppy (n # ns))"
        by simp
      ultimately show ?thesis by force
    next
      case ok: True
      define s1 where "s1 = s\<lparr>grub_errno := GRUB_ERR_NONE,
               touched := touched s @ [FileOpen ?p], mm_calls := Suc (mm_calls s)\<rparr>"
      show ?thesis
      proof (cases "file_present P key n")
        case True
        then have "grub_device_iterate ?hook ns (Suc count, Some ?p) (grub_printf ('' '' @ n) s1)
            = (aborted, (count', buf'), s')"
          using nskip ok Cons.prems by (simp add: file_hook_hit found_def s1_def)
        from Cons.IH [OF this] obtain ts where
          ts: "prefix ts (candidates no_floppy ns)"
            "out s' = out s @ '' '' @ n @ emitted (filter (file_present P key) ts)"
            "count' = Suc count + length (filter (file_present P key) ts)"
            "touched s' = touched s @ FileOpen ?p # map (\<lambda>n. FileOpen (''('' @ n @ '')'' @ key)) ts"
          and e: "env s' = env s"
          by (auto simp: s1_def grub_printf_def)
        have "prefix (n # ts) (candidates no_floppy (n # ns)) \<and>
            out s' = out s @ emitted (filter (file_present P key) (n # ts)) \<and>
            count' = count + length (filter (file_present P key) (n # ts)) \<and>
            touched s' = touched s @ map (\<lambda>n. FileOpen (''('' @ n @ '')'' @ key)) (n # ts)"
          using ts True nskip by simp
        then show ?thesis using e by blast
      next
        case False
        then have "grub_device_iterate ?hook ns (count, Some ?p) s1 = (aborted, (count', buf'), s')"
          using nskip ok Cons.prems by (simp add: file_hook_miss s1_def)
        from Cons.IH [OF this] obtain ts where
          ts: "prefix ts (candidates no_floppy ns)"
            "out s' = out s @ emitted (filter (file_present P key) ts)"
            "count' = count + length (filter (file_present P key) ts)"
            "touched s' = touched s @ FileOpen ?p # map (\<lambda>n. FileOpen (''('' @ n @ '')'' @ key)) ts"
          and e: "env s' = env s"
          by (auto simp: s1_def)
        have "prefix (n # ts) (candidates no_floppy (n # ns)) \<and>
            out s' = out s @ emitted (filter (file_present P key) (n # ts)) \<and>
            count' = count + length (filter (file_present P key) (n # ts)) \<and>
            touched s' = touched s @ map (\<lambda>n. FileOpen (''('' @ n @ '')'' @ key)) (n # ts)"
          using ts False nskip by simp
        then show ?thesis using e by blast
      qed
    qed
  qed
qed

lemma iterate_append:
  "grub_device_iterate hook (xs @ ys) c s =
     (case grub_device_iterate hook xs c s of
        (aborted, c', s') \<Rightarrow>
          if aborted then (True, c', s') else grub_device_iterate hook ys c' s')"
  by (induction xs arbitrary: c s) (auto split: prod.splits)

subsection \<open>The command and the two searches\<close>

lemma fs_hook_fail:
  assumes "\<not> skipped no_floppy name" "fs_attribute P is_uuid name = None"
  shows "search_fs_iterate_device P key var no_floppy is_uuid name count s =
     (False, count, s\<lparr>grub_errno := GRUB_ERR_NONE, touched := touched s @ [DeviceOpen name]\<rparr>)"
  using assms
  by (auto simp: skipped_def search_fs_iterate_device_def fs_attribute_def grub_device_open_def
      raised_def Let_def
      split: sum.splits option.splits if_splits prod.splits)

lemma fs_enumerate_errno:
  assumes "grub_errno s = GRUB_ERR_NONE"
  shows "grub_errno (snd (snd (search_fs_enumerate P key var no_floppy is_uuid s))) = GRUB_ERR_NONE"
proof (cases var)
  case None
  then show ?thesis using assms
    by (simp add: search_fs_enumerate_def fs_iterate_print)
next
  case (Some v)
  then show ?thesis using assms
    by (simp add: search_fs_enumerate_def fs_iterate_bind split: option.splits)
qed

lemma search_fs_errno:
  "grub_errno (search_fs P key var no_floppy is_uuid s) =
     (if fst (snd (search_fs_enumerate P key var no_floppy is_uuid s)) = 0
      then GRUB_ERR_FILE_NOT_FOUND
      else grub_errno (snd (snd (search_fs_enumerate P key var no_floppy is_uuid s))))"
  by (simp add: search_fs_def grub_error_def split: prod.splits)

lemma search_file_errno:
  "grub_errno (search_file P key var no_floppy s) =
     (if grub_errno (snd (snd (search_file_enumerate P key var no_floppy s))) = GRUB_ERR_NONE \<and>
         fst (fst (snd (search_file_enumerate P key var no_floppy s))) = 0
      then GRUB_ERR_FILE_NOT_FOUND
      else grub_errno (snd (snd (search_file_enumerate P key var no_floppy s))))"
  by (simp add: search_file_def grub_error_def split: prod.splits)

lemma file_enumerate_errno:
  assumes "grub_errno s = GRUB_ERR_NONE"
  shows "grub_errno (snd (snd (search_file_enumerate P key var no_floppy s))) = GRUB_ERR_NONE \<or>
     grub_errno (snd (snd (search_file_enumerate P key var no_floppy s))) = GRUB_ERR_OUT_OF_MEMORY"
proof -
  obtain a c s1 where h: "search_file_enumerate P key var no_floppy s = (a, c, s1)"
    by (metis prod_cases3)
  then show ?thesis
    using file_iterate_errno [of P key var no_floppy "devices P" "(0, None)" s a c s1] assms
    by (auto simp: search_file_enumerate_def)
qed

lemma cmd_returns_errno:
  "fst (grub_cmd_search P state args s) = grub_errno (snd (grub_cmd_search P state args s))"
  by (simp add: grub_cmd_search_def grub_error_def Let_def)

lemma cmd_no_argument:
  "grub_cmd_search P state [] s =
     (GRUB_ERR_INVALID_COMMAND,
      s\<lparr>grub_errno := GRUB_ERR_INVALID_COMMAND, grub_errmsg := ''no argument specified''\<rparr>)"
  by (simp add: grub_cmd_search_def grub_error_def)

lemma cmd_no_mode:
  assumes "\<not> is_set (state SEARCH_LABEL)" "\<not> is_set (state SEARCH_FS_UUID)"
    "\<not> is_set (state SEARCH_FILE)" "args \<noteq> []"
  shows "grub_cmd_search P state args s =
     (GRUB_ERR_INVALID_COMMAND,
      s\<lparr>grub_errno := GRUB_ERR_INVALID_COMMAND, grub_errmsg := ''unspecified search type''\<rparr>)"
  using assms by (simp add: grub_cmd_search_def grub_error_def Let_def)

lemma search_fs_fields:
  "env (search_fs P key var no_floppy is_uuid s)
     = env (snd (snd (search_fs_enumerate P key var no_floppy is_uuid s)))"
  "out (search_fs P key var no_floppy is_uuid s)
     = out (snd (snd (search_fs_enumerate P key var no_floppy is_uuid s)))"
  "touched (search_fs P key var no_floppy is_uuid s)
     = touched (snd (snd (search_fs_enumerate P key var no_floppy is_uuid s)))"
  by (simp_all add: search_fs_def grub_error_def split: prod.splits)

lemma search_file_fields:
  "env (search_file P key var no_floppy s)
     = env (snd (snd (search_file_enumerate P key var no_floppy s)))"
  "out (search_file P key var no_floppy s)
     = out (snd (snd (search_file_enumerate P key var no_floppy s)))"
  "touched (search_file P key var no_floppy s)
     = touched (snd (snd (search_file_enumerate P key var no_floppy s)))"
  by (simp_all add: search_file_def grub_error_def split: prod.splits)

lemma upto_first_no_match: "find p xs = None \<Longrightarrow> upto_first p xs = xs"
  by (induction xs) (auto split: if_splits)

subsection \<open>A device that is not skipped\<close>

lemma fs_hook_probe:
  assumes "\<not> (no_floppy \<and> is_floppy name)" "grub_errno s = GRUB_ERR_NONE"
  shows "search_fs_iterate_device P key var no_floppy is_uuid name count s =
     (if fs_attribute P is_uuid name = Some key then
        (case var of
           Some v \<Rightarrow>
             (True, Suc count,
              s\<lparr>env := env s @ [(v, name)], touched := touched s @ [DeviceOpen name]\<rparr>)
         | None \<Rightarrow>
             (False, Suc count,
              s\<lparr>out := out s @ '' '' @ name, touched := touched s @ [DeviceOpen name]\<rparr>))
      else (False, count, s\<lparr>touched := touched s @ [DeviceOpen name]\<rparr>))"
proof -
  have ns: "\<not> skipped no_floppy name" using assms(1) by (simp add: skipped_def)
  show ?thesis
  proof (cases "fs_attribute P is_uuid name = Some key")
    case True
    then show ?thesis
      using fs_hook_hit [OF ns assms(2) True, of var count]
      by (simp add: found_def grub_env_set_def grub_printf_def split: option.splits)
  next
    case False
    then show ?thesis
      using fs_hook_miss [OF ns assms(2) False, of var count] by simp
  qed
qed

lemma file_hook_probe:
  assumes "\<not> (no_floppy \<and> is_floppy name)"
    "realloc_ok P (mm_calls s) (length name + 2 + length key + 1)"
  shows "search_file_iterate_device P key var no_floppy name (count, buf) s =
     (if file_present P key name then
        (case var of
           Some v \<Rightarrow>
             (True, (Suc count, Some (''('' @ name @ '')'' @ key)),
              s\<lparr>grub_errno := GRUB_ERR_NONE, env := env s @ [(v, name)],
                touched := touched s @ [FileOpen (''('' @ name @ '')'' @ key)],
                mm_calls := Suc (mm_calls s)\<rparr>)
         | None \<Rightarrow>
             (False, (Suc count, Some (''('' @ name @ '')'' @ key)),
              s\<lparr>grub_errno := GRUB_ERR_NONE, out := out s @ '' '' @ name,
                touched := touched s @ [FileOpen (''('' @ name @ '')'' @ key)],
                mm_calls := Suc (mm_calls s)\<rparr>))
      else
        (False, (count, Some (''('' @ name @ '')'' @ key)),
         s\<lparr>grub_errno := GRUB_ERR_NONE,
           touched := touched s @ [FileOpen (''('' @ name @ '')'' @ key)],
           mm_calls := Suc (mm_calls s)\<rparr>))"
proof -
  have ns: "\<not> skipped no_floppy name" using assms(1) by (simp add: skipped_def)
  show ?thesis
  proof (cases "file_present P key name")
    case True
    then show ?thesis
      using file_hook_hit [OF ns assms(2) True, of var count buf]
      by (simp add: found_def grub_env_set_def grub_printf_def split: option.splits)
  next
    case False
    then show ?thesis
      using file_hook_miss [OF ns assms(2) False, of var count buf] by simp
  qed
qed

lemma fs_iterate_no_floppy:
  "grub_device_iterate (search_fs_iterate_device P key var True is_uuid) names count s =
   grub_device_iterate (search_fs_iterate_device P key var False is_uuid)
     (filter (\<lambda>name. \<not> is_floppy name) names) count s"
proof (induction names arbitrary: count s)
  case Nil
  then show ?case by simp
next
  case (Cons n ns)
  show ?case
  proof (cases "is_floppy n")
    case True
    then show ?thesis using Cons.IH by (simp add: search_fs_iterate_device_def)
  next
    case False
    then have "search_fs_iterate_device P key var True is_uuid n count s =
        search_fs_iterate_device P key var False is_uuid n count s"
      by (simp add: search_fs_iterate_device_def)
    then show ?thesis using False Cons.IH by (simp split: prod.splits)
  qed
qed

lemma file_iterate_no_floppy:
  "grub_device_iterate (search_file_iterate_device P key var True) names c s =
   grub_device_iterate (search_file_iterate_device P key var False)
     (filter (\<lambda>name. \<not> is_floppy name) names) c s"
proof (induction names arbitrary: c s)
  case Nil
  then show ?case by simp
next
  case (Cons n ns)
  show ?case
  proof (cases "is_floppy n")
    case True
    then show ?thesis using Cons.IH
      by (simp add: search_file_iterate_device_def split: prod.splits)
  next
    case False
    then have "search_file_iterate_device P key var True n c s =
        search_file_iterate_device P key var False n c s"
      by (simp add: search_file_iterate_device_def split: prod.splits)
    then show ?thesis using False Cons.IH by (simp split: prod.splits)
  qed
qed

section \<open>The claims\<close>

subsection \<open>The final decision\<close>

text \<open>
  Claim C1. A command entered with no error pending fails with \<open>GRUB_ERR_FILE_NOT_FOUND\<close>
  exactly when, after the enumeration, the match count is zero and no error is pending.
  In label and UUID mode every tested device leaves the error number cleared, so no error
  is ever pending after the enumeration and the count alone decides. In file mode an
  error can be left pending, and then that error is the one the search ends with, in
  place of \<open>GRUB_ERR_FILE_NOT_FOUND\<close>. The command returns the error number its search
  ends with.
\<close>

theorem not_found_decision:
  assumes "grub_errno s = GRUB_ERR_NONE"
  shows
   "grub_errno (snd (snd (search_fs_enumerate P key var no_floppy is_uuid s))) = GRUB_ERR_NONE \<and>
    (grub_errno (search_fs P key var no_floppy is_uuid s) = GRUB_ERR_FILE_NOT_FOUND \<longleftrightarrow>
       fst (snd (search_fs_enumerate P key var no_floppy is_uuid s)) = 0 \<and>
       grub_errno (snd (snd (search_fs_enumerate P key var no_floppy is_uuid s))) = GRUB_ERR_NONE) \<and>
    (grub_errno (search_file P key var no_floppy s) = GRUB_ERR_FILE_NOT_FOUND \<longleftrightarrow>
       fst (fst (snd (search_file_enumerate P key var no_floppy s))) = 0 \<and>
       grub_errno (snd (snd (search_file_enumerate P key var no_floppy s))) = GRUB_ERR_NONE) \<and>
    (grub_errno (snd (snd (search_file_enumerate P key var no_floppy s))) \<noteq> GRUB_ERR_NONE \<longrightarrow>
       grub_errno (search_file P key var no_floppy s)
         = grub_errno (snd (snd (search_file_enumerate P key var no_floppy s)))) \<and>
    fst (grub_cmd_search P state args s) = grub_errno (snd (grub_cmd_search P state args s))"
  using fs_enumerate_errno [OF assms, of P key var no_floppy is_uuid]
    file_enumerate_errno [OF assms, of P key var no_floppy]
  by (auto simp: search_fs_errno search_file_errno cmd_returns_errno)

theorem not_found_decision_witness:
  "grub_errno fresh = GRUB_ERR_NONE \<and>
   fst (snd (search_fs_enumerate demo_platform ''ABCD-1234'' None False True fresh)) = 1 \<and>
   grub_errno (search_fs demo_platform ''ABCD-1234'' None False True fresh) = GRUB_ERR_NONE \<and>
   fst (snd (search_fs_enumerate demo_platform ''NONE'' None False False fresh)) = 0 \<and>
   grub_errno (search_fs demo_platform ''NONE'' None False False fresh) = GRUB_ERR_FILE_NOT_FOUND \<and>
   grub_errno (snd (snd (search_file_enumerate demo_platform_lowmem ''/grub.cfg'' None False fresh)))
     = GRUB_ERR_OUT_OF_MEMORY \<and>
   fst (fst (snd (search_file_enumerate demo_platform_lowmem ''/grub.cfg'' None False fresh))) = 0 \<and>
   grub_errno (search_file demo_platform_lowmem ''/grub.cfg'' None False fresh) = GRUB_ERR_OUT_OF_MEMORY \<and>
   fst (grub_cmd_search demo_platform_lowmem (parsed [SEARCH_FILE] None) [''/grub.cfg''] fresh)
     = GRUB_ERR_OUT_OF_MEMORY \<and>
   grub_errno (search_file demo_platform ''/none'' None False fresh) = GRUB_ERR_FILE_NOT_FOUND"
  using not_found_decision [where s = fresh and P = demo_platform_lowmem and key = "''/grub.cfg''"
      and var = None and no_floppy = False and is_uuid = False
      and state = "parsed [SEARCH_FILE] None" and args = "[''/grub.cfg'']"]
  by (simp add: demo_defs demo_platform_lowmem_def search_defs)

subsection \<open>The mode flags\<close>

text \<open>
  Claim C2. When no mode flag is given, file mode is assumed. The command does not do
  so: on the command line \<^verbatim>\<open>search /grub.cfg\<close> it fails with \<open>GRUB_ERR_INVALID_COMMAND\<close>
  and the message \<^verbatim>\<open>unspecified search type\<close> without opening anything, although the
  help text of \<^verbatim>\<open>--file\<close> calls file mode the default and \<^verbatim>\<open>search -f /grub.cfg\<close>
  finds the file on two devices.
\<close>

theorem no_mode_flag_is_rejected:
  "grub_cmd_search demo_platform (parsed [] None) [''/grub.cfg''] fresh =
     (GRUB_ERR_INVALID_COMMAND,
      fresh\<lparr>grub_errno := GRUB_ERR_INVALID_COMMAND, grub_errmsg := ''unspecified search type''\<rparr>) \<and>
   out (snd (grub_cmd_search demo_platform (parsed [SEARCH_FILE] None) [''/grub.cfg''] fresh))
     = '' hd1 fd0''"
  by (simp add: demo_defs search_defs)

subsection \<open>Binding the first match\<close>

text \<open>
  Claim C3. With a variable to bind, a search makes at most one write to the variable
  store, the write binds the variable to the first device, in the order of the
  enumeration and among those not skipped, whose label or UUID equals the key (or on
  which the file opens), and no device after that one is opened. In label and UUID
  mode (entered with no error pending) and in file mode (when the allocator never fails)
  the devices opened are exactly those up to and including the first match, and the
  write happens whenever there is a match. In file mode in general the devices opened
  are a prefix of those, and the write, if any, names the first match. Nothing is
  printed.
\<close>

theorem first_match_binding:
  "(grub_errno s = GRUB_ERR_NONE \<longrightarrow>
      env (search_fs P key (Some v) no_floppy is_uuid s) =
        env s @ (case find (\<lambda>name. fs_attribute P is_uuid name = Some key)
                        (candidates no_floppy (devices P)) of
                   None \<Rightarrow> [] | Some d \<Rightarrow> [(v, d)]) \<and>
      touched (search_fs P key (Some v) no_floppy is_uuid s) =
        touched s @ map DeviceOpen
          (upto_first (\<lambda>name. fs_attribute P is_uuid name = Some key)
             (candidates no_floppy (devices P))) \<and>
      out (search_fs P key (Some v) no_floppy is_uuid s) = out s) \<and>
   ((\<forall>i n. realloc_ok P i n) \<longrightarrow>
      env (search_file P key (Some v) no_floppy s) =
        env s @ (case find (file_present P key) (candidates no_floppy (devices P)) of
                   None \<Rightarrow> [] | Some d \<Rightarrow> [(v, d)]) \<and>
      touched (search_file P key (Some v) no_floppy s) =
        touched s @ map (\<lambda>name. FileOpen (''('' @ name @ '')'' @ key))
          (upto_first (file_present P key) (candidates no_floppy (devices P)))) \<and>
   (env (search_file P key (Some v) no_floppy s) = env s \<or>
    (\<exists>d. find (file_present P key) (candidates no_floppy (devices P)) = Some d \<and>
         env (search_file P key (Some v) no_floppy s) = env s @ [(v, d)])) \<and>
   (\<exists>ts. prefix ts (upto_first (file_present P key) (candidates no_floppy (devices P))) \<and>
      touched (search_file P key (Some v) no_floppy s) =
        touched s @ map (\<lambda>name. FileOpen (''('' @ name @ '')'' @ key)) ts) \<and>
   out (search_file P key (Some v) no_floppy s) = out s"
proof -
  obtain a c b s1 where h: "search_file_enumerate P key (Some v) no_floppy s = (a, (c, b), s1)"
    by (cases "search_file_enumerate P key (Some v) no_floppy s") auto
  note any = file_iterate_bind_any [OF h [unfolded search_file_enumerate_def]]
  have fs: "grub_errno s = GRUB_ERR_NONE \<Longrightarrow>
      env (search_fs P key (Some v) no_floppy is_uuid s) =
        env s @ (case find (\<lambda>name. fs_attribute P is_uuid name = Some key)
                        (candidates no_floppy (devices P)) of
                   None \<Rightarrow> [] | Some d \<Rightarrow> [(v, d)]) \<and>
      touched (search_fs P key (Some v) no_floppy is_uuid s) =
        touched s @ map DeviceOpen
          (upto_first (\<lambda>name. fs_attribute P is_uuid name = Some key)
             (candidates no_floppy (devices P))) \<and>
      out (search_fs P key (Some v) no_floppy is_uuid s) = out s"
    by (simp add: search_fs_fields search_fs_enumerate_def fs_iterate_bind upto_first_no_match
        split: option.splits)
  have fl: "\<forall>i n. realloc_ok P i n \<Longrightarrow>
      env (search_file P key (Some v) no_floppy s) =
        env s @ (case find (file_present P key) (candidates no_floppy (devices P)) of
                   None \<Rightarrow> [] | Some d \<Rightarrow> [(v, d)]) \<and>
      touched (search_file P key (Some v) no_floppy s) =
        touched s @ map (\<lambda>name. FileOpen (''('' @ name @ '')'' @ key))
          (upto_first (file_present P key) (candidates no_floppy (devices P)))"
    using file_iterate_bind [OF _ h [unfolded search_file_enumerate_def]]
    by (simp add: search_file_fields h split: option.splits)
  have part: "env (search_file P key (Some v) no_floppy s) = env s \<or>
      (\<exists>d. find (file_present P key) (candidates no_floppy (devices P)) = Some d \<and>
           env (search_file P key (Some v) no_floppy s) = env s @ [(v, d)])"
    using any by (auto simp: search_file_fields h)
  have pre: "\<exists>ts. prefix ts (upto_first (file_present P key) (candidates no_floppy (devices P))) \<and>
      touched (search_file P key (Some v) no_floppy s) =
        touched s @ map (\<lambda>name. FileOpen (''('' @ name @ '')'' @ key)) ts"
    using any by (simp add: search_file_fields h)
  have quiet: "out (search_file P key (Some v) no_floppy s) = out s"
    using any by (simp add: search_file_fields h)
  show ?thesis
    using fs fl part pre quiet by blast
qed

theorem first_match_binding_witness:
  "grub_errno fresh = GRUB_ERR_NONE \<and>
   (\<forall>i n. realloc_ok demo_platform i n) \<and>
   find (\<lambda>name. fs_attribute demo_platform False name = Some ''MYUSB'')
     (candidates False (devices demo_platform)) = Some ''hd1'' \<and>
   env (search_fs demo_platform ''MYUSB'' (Some ''root'') False False fresh) = [(''root'', ''hd1'')] \<and>
   touched (search_fs demo_platform ''MYUSB'' (Some ''root'') False False fresh)
     = [DeviceOpen ''hd0'', DeviceOpen ''hd1''] \<and>
   find (file_present demo_platform ''/grub.cfg'') (candidates False (devices demo_platform))
     = Some ''hd1'' \<and>
   env (search_file demo_platform ''/grub.cfg'' (Some ''root'') False fresh) = [(''root'', ''hd1'')] \<and>
   touched (search_file demo_platform ''/grub.cfg'' (Some ''root'') False fresh)
     = [FileOpen ''(hd0)/grub.cfg'', FileOpen ''(hd1)/grub.cfg'']"
proof -
  have clean: "grub_errno fresh = GRUB_ERR_NONE"
    by (simp add: fresh_def)
  have mem: "\<forall>i n. realloc_ok demo_platform i n"
    by (simp add: demo_platform_def)
  have cs: "candidates False (devices demo_platform) = [''hd0'', ''hd1'', ''fd0'']"
    by (simp add: demo_platform_def skipped_def)
  have a0: "fs_attribute demo_platform False ''hd0'' = Some ''BOOT''"
    and a1: "fs_attribute demo_platform False ''hd1'' = Some ''MYUSB''"
    by (simp_all add: fs_attribute_def QUID_def demo_defs)
  have f0: "\<not> file_present demo_platform ''/grub.cfg'' ''hd0''"
    and f1: "file_present demo_platform ''/grub.cfg'' ''hd1''"
    by (simp_all add: file_present_def demo_defs)
  have e: "env fresh = []" "touched fresh = []"
    by (simp_all add: fresh_def)
  have fs: "env (search_fs demo_platform ''MYUSB'' (Some ''root'') False False fresh)
        = [(''root'', ''hd1'')] \<and>
      touched (search_fs demo_platform ''MYUSB'' (Some ''root'') False False fresh)
        = [DeviceOpen ''hd0'', DeviceOpen ''hd1'']"
    using first_match_binding [where s = fresh and P = demo_platform and key = "''MYUSB''"
      and v = "''root''" and no_floppy = False and is_uuid = False] clean
    by (simp only: cs) (simp add: a0 a1 e)
  have fl: "env (search_file demo_platform ''/grub.cfg'' (Some ''root'') False fresh)
        = [(''root'', ''hd1'')] \<and>
      touched (search_file demo_platform ''/grub.cfg'' (Some ''root'') False fresh)
        = [FileOpen ''(hd0)/grub.cfg'', FileOpen ''(hd1)/grub.cfg'']"
    using first_match_binding [where s = fresh and P = demo_platform and key = "''/grub.cfg''"
      and v = "''root''" and no_floppy = False and is_uuid = False] mem
    by (simp only: cs) (simp add: f0 f1 e)
  show ?thesis
    using clean mem fs fl by (simp add: cs a0 a1 f0 f1)
qed

subsection \<open>Printing every match\<close>

text \<open>
  Claim C4. Without a variable to bind, the characters a search prints are the names,
  each after a single space and in the order of the enumeration, of exactly the devices
  not skipped by the floppy filter whose label or UUID equals the key (label and UUID
  mode, entered with no error pending) or on which the file opens (file mode, when the
  allocator never fails).
\<close>

theorem emitted_matches:
  "(grub_errno s = GRUB_ERR_NONE \<longrightarrow>
      out (search_fs P key None no_floppy is_uuid s) =
        out s @ emitted (filter (\<lambda>name. fs_attribute P is_uuid name = Some key)
                           (candidates no_floppy (devices P)))) \<and>
   ((\<forall>i n. realloc_ok P i n) \<longrightarrow>
      out (search_file P key None no_floppy s) =
        out s @ emitted (filter (file_present P key) (candidates no_floppy (devices P)))) \<and>
   (\<exists>ts. prefix ts (candidates no_floppy (devices P)) \<and>
      out (search_file P key None no_floppy s) =
        out s @ emitted (filter (file_present P key) ts))"
proof (intro conjI impI)
  assume "grub_errno s = GRUB_ERR_NONE"
  then show "out (search_fs P key None no_floppy is_uuid s) =
        out s @ emitted (filter (\<lambda>name. fs_attribute P is_uuid name = Some key)
                           (candidates no_floppy (devices P)))"
    by (simp add: search_fs_fields search_fs_enumerate_def fs_iterate_print)
next
  assume ok: "\<forall>i n. realloc_ok P i n"
  obtain a c b s1 where h: "search_file_enumerate P key None no_floppy s = (a, (c, b), s1)"
    by (cases "search_file_enumerate P key None no_floppy s") auto
  from file_iterate_print [OF ok h [unfolded search_file_enumerate_def]]
  show "out (search_file P key None no_floppy s) =
        out s @ emitted (filter (file_present P key) (candidates no_floppy (devices P)))"
    by (simp add: search_file_fields h)
next
  obtain a c b s1 where h: "search_file_enumerate P key None no_floppy s = (a, (c, b), s1)"
    by (cases "search_file_enumerate P key None no_floppy s") auto
  from file_iterate_print_any [OF h [unfolded search_file_enumerate_def]]
  show "\<exists>ts. prefix ts (candidates no_floppy (devices P)) \<and>
      out (search_file P key None no_floppy s) =
        out s @ emitted (filter (file_present P key) ts)"
    by (auto simp: search_file_fields h)
qed

theorem emitted_matches_witness:
  "grub_errno fresh = GRUB_ERR_NONE \<and>
   (\<forall>i n. realloc_ok demo_platform i n) \<and>
   filter (\<lambda>name. fs_attribute demo_platform False name = Some ''MYUSB'')
     (candidates False (devices demo_platform)) = [''hd1''] \<and>
   out (search_fs demo_platform ''MYUSB'' None False False fresh) = '' hd1'' \<and>
   filter (file_present demo_platform ''/grub.cfg'') (candidates True (devices demo_platform))
     = [''hd1''] \<and>
   out (search_file demo_platform ''/grub.cfg'' None True fresh) = '' hd1''"
proof -
  have clean: "grub_errno fresh = GRUB_ERR_NONE" and quiet: "out fresh = []"
    by (simp_all add: fresh_def)
  have mem: "\<forall>i n. realloc_ok demo_platform i n"
    by (simp add: demo_platform_def)
  have labelled: "filter (\<lambda>name. fs_attribute demo_platform False name = Some ''MYUSB'')
      (candidates False (devices demo_platform)) = [''hd1'']"
    by (simp add: demo_defs candidates_def skipped_def fs_attribute_def QUID_def)
  have holding: "filter (file_present demo_platform ''/grub.cfg'')
      (candidates True (devices demo_platform)) = [''hd1'']"
    by (simp add: demo_defs candidates_def skipped_def file_present_def is_floppy_def c_at_def)
  have fs: "out (search_fs demo_platform ''MYUSB'' None False False fresh) = '' hd1''"
    using emitted_matches [where s = fresh and P = demo_platform and key = "''MYUSB''"
        and no_floppy = False and is_uuid = False] clean
    by (simp only: labelled) (simp add: quiet)
  have fl: "out (search_file demo_platform ''/grub.cfg'' None True fresh) = '' hd1''"
    using emitted_matches [where s = fresh and P = demo_platform and key = "''/grub.cfg''"
        and no_floppy = True and is_uuid = False] mem
    by (simp only: holding) (simp add: quiet)
  show ?thesis
    using clean mem labelled holding fs fl by simp
qed

subsection \<open>Failures of a single device\<close>

text \<open>
  Claim C5. A device that is not skipped and that cannot be opened, holds no known
  filesystem, has no accessor for the attribute or fails to read it, and in file mode a
  device on which the file does not open, counts as no match: the hook returns without
  asking for an abort, with the count unchanged and the error number cleared, whatever
  it was before, and the enumeration goes on with the next device.
\<close>

theorem per_device_failures_cleared:
  "\<not> (no_floppy \<and> is_floppy name) \<longrightarrow>
     (fs_attribute P is_uuid name = None \<longrightarrow>
        search_fs_iterate_device P key var no_floppy is_uuid name count s =
          (False, count,
           s\<lparr>grub_errno := GRUB_ERR_NONE, touched := touched s @ [DeviceOpen name]\<rparr>) \<and>
        grub_device_iterate (search_fs_iterate_device P key var no_floppy is_uuid)
            (name # names) count s =
          grub_device_iterate (search_fs_iterate_device P key var no_floppy is_uuid) names count
            (s\<lparr>grub_errno := GRUB_ERR_NONE, touched := touched s @ [DeviceOpen name]\<rparr>)) \<and>
     (realloc_ok P (mm_calls s) (length name + 2 + length key + 1) \<and> \<not> file_present P key name \<longrightarrow>
        search_file_iterate_device P key var no_floppy name (count, buf) s =
          (False, (count, Some (''('' @ name @ '')'' @ key)),
           s\<lparr>grub_errno := GRUB_ERR_NONE,
             touched := touched s @ [FileOpen (''('' @ name @ '')'' @ key)],
             mm_calls := Suc (mm_calls s)\<rparr>) \<and>
        grub_device_iterate (search_file_iterate_device P key var no_floppy)
            (name # names) (count, buf) s =
          grub_device_iterate (search_file_iterate_device P key var no_floppy) names
            (count, Some (''('' @ name @ '')'' @ key))
            (s\<lparr>grub_errno := GRUB_ERR_NONE,
               touched := touched s @ [FileOpen (''('' @ name @ '')'' @ key)],
               mm_calls := Suc (mm_calls s)\<rparr>))"
proof (intro impI)
  assume "\<not> (no_floppy \<and> is_floppy name)"
  then have ns: "\<not> skipped no_floppy name" by (simp add: skipped_def)
  show "(fs_attribute P is_uuid name = None \<longrightarrow>
        search_fs_iterate_device P key var no_floppy is_uuid name count s =
          (False, count,
           s\<lparr>grub_errno := GRUB_ERR_NONE, touched := touched s @ [DeviceOpen name]\<rparr>) \<and>
        grub_device_iterate (search_fs_iterate_device P key var no_floppy is_uuid)
            (name # names) count s =
          grub_device_iterate (search_fs_iterate_device P key var no_floppy is_uuid) names count
            (s\<lparr>grub_errno := GRUB_ERR_NONE, touched := touched s @ [DeviceOpen name]\<rparr>)) \<and>
     (realloc_ok P (mm_calls s) (length name + 2 + length key + 1) \<and> \<not> file_present P key name \<longrightarrow>
        search_file_iterate_device P key var no_floppy name (count, buf) s =
          (False, (count, Some (''('' @ name @ '')'' @ key)),
           s\<lparr>grub_errno := GRUB_ERR_NONE,
             touched := touched s @ [FileOpen (''('' @ name @ '')'' @ key)],
             mm_calls := Suc (mm_calls s)\<rparr>) \<and>
        grub_device_iterate (search_file_iterate_device P key var no_floppy)
            (name # names) (count, buf) s =
          grub_device_iterate (search_file_iterate_device P key var no_floppy) names
            (count, Some (''('' @ name @ '')'' @ key))
            (s\<lparr>grub_errno := GRUB_ERR_NONE,
               touched := touched s @ [FileOpen (''('' @ name @ '')'' @ key)],
               mm_calls := Suc (mm_calls s)\<rparr>))"
    using ns by (simp add: fs_hook_fail file_hook_miss)
qed

theorem per_device_failures_cleared_witness:
  "\<not> (False \<and> is_floppy ''fd0'') \<and>
   fs_attribute demo_platform False ''fd0'' = None \<and>
   search_fs_iterate_device demo_platform ''MYUSB'' None False False ''fd0'' 0
       (fresh\<lparr>grub_errno := GRUB_ERR_OTHER 7\<rparr>)
     = (False, 0, fresh\<lparr>touched := [DeviceOpen ''fd0'']\<rparr>) \<and>
   fs_attribute demo_platform True ''hd0'' = None \<and>
   grub_errno (snd (snd (search_fs_iterate_device demo_platform ''MYUSB'' None False True ''hd0'' 0
       fresh))) = GRUB_ERR_NONE \<and>
   realloc_ok demo_platform (mm_calls fresh) (length ''hd0'' + 2 + length ''MYUSB'' + 1) \<and>
   \<not> file_present demo_platform ''MYUSB'' ''hd0'' \<and>
   search_file_iterate_device demo_platform ''MYUSB'' None False ''hd0'' (0, None) fresh
     = (False, (0, Some ''(hd0)MYUSB''), fresh\<lparr>touched := [FileOpen ''(hd0)MYUSB''], mm_calls := 1\<rparr>)"
  using per_device_failures_cleared [where no_floppy = False and name = "''fd0''" and P = demo_platform
      and is_uuid = False and key = "''MYUSB''" and var = None and count = 0 and buf = None
      and s = "fresh\<lparr>grub_errno := GRUB_ERR_OTHER 7\<rparr>" and names = "[]"]
    per_device_failures_cleared [where no_floppy = False and name = "''hd0''" and P = demo_platform
      and is_uuid = True and key = "''MYUSB''" and var = None and count = 0 and buf = None
      and s = fresh and names = "[]"]
  by (simp add: demo_defs fs_attribute_def file_present_def QUID_def)

subsection \<open>Invalid invocations\<close>

text \<open>
  Claim C6, as amended. The command fails with \<open>GRUB_ERR_INVALID_COMMAND\<close>, having
  opened, written and printed nothing, whenever it is given no argument or none of the
  three mode flags is set. (An empty key is not rejected: see the counterexample.)
\<close>

theorem invalid_invocation:
  "args = [] \<or>
   (\<not> is_set (state SEARCH_LABEL) \<and> \<not> is_set (state SEARCH_FS_UUID) \<and> \<not> is_set (state SEARCH_FILE))
   \<longrightarrow>
     fst (grub_cmd_search P state args s) = GRUB_ERR_INVALID_COMMAND \<and>
     grub_errno (snd (grub_cmd_search P state args s)) = GRUB_ERR_INVALID_COMMAND \<and>
     touched (snd (grub_cmd_search P state args s)) = touched s \<and>
     env (snd (grub_cmd_search P state args s)) = env s \<and>
     out (snd (grub_cmd_search P state args s)) = out s \<and>
     mm_calls (snd (grub_cmd_search P state args s)) = mm_calls s"
  using cmd_no_argument [of P state s] cmd_no_mode [of state args P s]
  by (cases "args = []") auto

theorem invalid_invocation_witness:
  "touched (snd (grub_cmd_search demo_platform (parsed [SEARCH_LABEL] None) [] fresh)) = [] \<and>
   fst (grub_cmd_search demo_platform (parsed [SEARCH_LABEL] None) [] fresh) = GRUB_ERR_INVALID_COMMAND \<and>
   \<not> is_set (parsed [SEARCH_SET, SEARCH_NO_FLOPPY] None SEARCH_LABEL) \<and>
   \<not> is_set (parsed [SEARCH_SET, SEARCH_NO_FLOPPY] None SEARCH_FS_UUID) \<and>
   \<not> is_set (parsed [SEARCH_SET, SEARCH_NO_FLOPPY] None SEARCH_FILE) \<and>
   fst (grub_cmd_search demo_platform (parsed [SEARCH_SET, SEARCH_NO_FLOPPY] None) [''MYUSB''] fresh)
     = GRUB_ERR_INVALID_COMMAND \<and>
   touched (snd (grub_cmd_search demo_platform (parsed [SEARCH_SET, SEARCH_NO_FLOPPY] None) [''MYUSB''] fresh))
     = []"
  using invalid_invocation [where args = "[]" and P = demo_platform and s = fresh
      and state = "parsed [SEARCH_LABEL] None"]
    invalid_invocation [where args = "[''MYUSB'']" and P = demo_platform and s = fresh
      and state = "parsed [SEARCH_SET, SEARCH_NO_FLOPPY] None"]
  by (simp add: demo_defs)

text \<open>
  Claim C6 as stated fails on an empty key: \<^verbatim>\<open>search -f ""\<close> is not an invalid
  invocation. Every device is tried with the path made of its name alone, and the
  command ends with \<open>GRUB_ERR_FILE_NOT_FOUND\<close>.
\<close>

theorem empty_key_is_searched:
  "fst (grub_cmd_search demo_platform (parsed [SEARCH_FILE] None) [''''] fresh)
     \<noteq> GRUB_ERR_INVALID_COMMAND \<and>
   fst (grub_cmd_search demo_platform (parsed [SEARCH_FILE] None) [''''] fresh)
     = GRUB_ERR_FILE_NOT_FOUND \<and>
   touched (snd (grub_cmd_search demo_platform (parsed [SEARCH_FILE] None) [''''] fresh))
     = [FileOpen ''(hd0)'', FileOpen ''(hd1)'', FileOpen ''(fd0)'']"
  by (simp add: demo_defs search_defs)

subsection \<open>The floppy filter\<close>

text \<open>
  Claim C7. The floppy test holds of a name exactly when the name has at least three
  characters, starts with \<^verbatim>\<open>f\<close> and \<^verbatim>\<open>d\<close>, and has a decimal digit as its third
  character. When floppy drives are excluded, both hooks return on such a name at once:
  they ask for no abort and leave the counter and the whole state, so also the record of
  opened devices and files, as they were. On every other device, that is on any name when
  floppy drives are not excluded and on a name that is not a floppy name when they are,
  the hook of label and UUID mode opens the device and (entered with no error pending)
  counts it and binds or prints its name exactly when its attribute equals the key; the
  hook of file mode, once the buffer for the path is allocated, opens the file on it and
  counts it and binds or prints its name exactly when the file opened. An enumeration
  that excludes floppy drives is the enumeration that does not, run on the devices whose
  names are not floppy names.
\<close>

theorem floppy_filter:
  "(is_floppy name \<longleftrightarrow>
      3 \<le> length name \<and> name ! 0 = CHR ''f'' \<and> name ! 1 = CHR ''d'' \<and>
      name ! 2 \<in> set ''0123456789'') \<and>
   (no_floppy \<and> is_floppy name \<longrightarrow>
      search_fs_iterate_device P key var no_floppy is_uuid name count s = (False, count, s) \<and>
      search_file_iterate_device P key var no_floppy name c s = (False, c, s)) \<and>
   (\<not> no_floppy \<longrightarrow>
      touched (snd (snd (search_fs_iterate_device P key var no_floppy is_uuid name count s)))
        = touched s @ [DeviceOpen name] \<and>
      (realloc_ok P (mm_calls s) (length name + 2 + length key + 1) \<longrightarrow>
         touched (snd (snd (search_file_iterate_device P key var no_floppy name c s)))
           = touched s @ [FileOpen (''('' @ name @ '')'' @ key)])) \<and>
   (\<not> (no_floppy \<and> is_floppy name) \<longrightarrow>
      touched (snd (snd (search_fs_iterate_device P key var no_floppy is_uuid name count s)))
        = touched s @ [DeviceOpen name] \<and>
      (grub_errno s = GRUB_ERR_NONE \<longrightarrow>
         search_fs_iterate_device P key var no_floppy is_uuid name count s =
           (if fs_attribute P is_uuid name = Some key then
              (case var of
                 Some v \<Rightarrow>
                   (True, Suc count,
                    s\<lparr>env := env s @ [(v, name)], touched := touched s @ [DeviceOpen name]\<rparr>)
               | None \<Rightarrow>
                   (False, Suc count,
                    s\<lparr>out := out s @ '' '' @ name, touched := touched s @ [DeviceOpen name]\<rparr>))
            else (False, count, s\<lparr>touched := touched s @ [DeviceOpen name]\<rparr>))) \<and>
      (realloc_ok P (mm_calls s) (length name + 2 + length key + 1) \<longrightarrow>
         search_file_iterate_device P key var no_floppy name (count, buf) s =
           (if file_present P key name then
              (case var of
                 Some v \<Rightarrow>
                   (True, (Suc count, Some (''('' @ name @ '')'' @ key)),
                    s\<lparr>grub_errno := GRUB_ERR_NONE, env := env s @ [(v, name)],
                      touched := touched s @ [FileOpen (''('' @ name @ '')'' @ key)],
                      mm_calls := Suc (mm_calls s)\<rparr>)
               | None \<Rightarrow>
                   (False, (Suc count, Some (''('' @ name @ '')'' @ key)),
                    s\<lparr>grub_errno := GRUB_ERR_NONE, out := out s @ '' '' @ name,
                      touched := touched s @ [FileOpen (''('' @ name @ '')'' @ key)],
                      mm_calls := Suc (mm_calls s)\<rparr>))
            else
              (False, (count, Some (''('' @ name @ '')'' @ key)),
               s\<lparr>grub_errno := GRUB_ERR_NONE,
                 touched := touched s @ [FileOpen (''('' @ name @ '')'' @ key)],
                 mm_calls := Suc (mm_calls s)\<rparr>)))) \<and>
   grub_device_iterate (search_fs_iterate_device P key var True is_uuid) names count s =
     grub_device_iterate (search_fs_iterate_device P key var False is_uuid)
       (filter (\<lambda>name. \<not> is_floppy name) names) count s \<and>
   grub_device_iterate (search_file_iterate_device P key var True) names c s =
     grub_device_iterate (search_file_iterate_device P key var False)
       (filter (\<lambda>name. \<not> is_floppy name) names) c s"
proof -
  have pred: "is_floppy name \<longleftrightarrow>
      3 \<le> length name \<and> name ! 0 = CHR ''f'' \<and> name ! 1 = CHR ''d'' \<and>
      name ! 2 \<in> set ''0123456789''"
    by (rule is_floppy_iff)
  have skip: "search_fs_iterate_device P key var no_floppy is_uuid name count s = (False, count, s) \<and>
      search_file_iterate_device P key var no_floppy name c s = (False, c, s)"
    if "no_floppy \<and> is_floppy name"
  proof -
    from that have "skipped no_floppy name" by (simp add: skipped_def)
    then show ?thesis by (simp add: fs_hook_skip file_hook_skip)
  qed
  have fs_open: "touched (snd (snd (search_fs_iterate_device P key var no_floppy is_uuid name count s)))
        = touched s @ [DeviceOpen name]"
    if "\<not> (no_floppy \<and> is_floppy name)"
    using that
    by (auto simp: search_fs_iterate_device_def grub_device_open_def raised_def found_def
        grub_env_set_def grub_printf_def Let_def
        split: sum.splits option.splits prod.splits)
  have file_open: "touched (snd (snd (search_file_iterate_device P key var no_floppy name c s)))
           = touched s @ [FileOpen (''('' @ name @ '')'' @ key)]"
    if "\<not> (no_floppy \<and> is_floppy name)"
      and "realloc_ok P (mm_calls s) (length name + 2 + length key + 1)"
    using that
    by (auto simp: search_file_iterate_device_def grub_realloc_def grub_strlen_def
        grub_file_open_def device_path_def raised_def found_def grub_env_set_def
        grub_printf_def Let_def
        split: sum.splits option.splits prod.splits)
  show ?thesis
    using pred skip fs_open file_open
      fs_hook_probe [of no_floppy name s P key var is_uuid count]
      file_hook_probe [of no_floppy name P s key var count buf]
      fs_iterate_no_floppy [of P key var is_uuid names count s]
      file_iterate_no_floppy [of P key var names c s]
    by blast
qed

theorem floppy_filter_witness:
  "is_floppy ''fd0'' \<and> \<not> is_floppy ''hd1'' \<and>
   search_fs_iterate_device demo_platform ''/grub.cfg'' None True False ''fd0'' 0 fresh = (False, 0, fresh) \<and>
   search_file_iterate_device demo_platform ''/grub.cfg'' None True ''fd0'' (0, None) fresh
     = (False, (0, None), fresh) \<and>
   touched (snd (snd (search_fs_iterate_device demo_platform ''/grub.cfg'' None False False ''fd0'' 0 fresh)))
     = [DeviceOpen ''fd0''] \<and>
   realloc_ok demo_platform (mm_calls fresh) (length ''fd0'' + 2 + length ''/grub.cfg'' + 1) \<and>
   touched (snd (snd (search_file_iterate_device demo_platform ''/grub.cfg'' None False ''fd0'' (0, None) fresh)))
     = [FileOpen ''(fd0)/grub.cfg''] \<and>
   file_present demo_platform ''/grub.cfg'' ''fd0'' \<and>
   search_file_iterate_device demo_platform ''/grub.cfg'' None False ''fd0'' (0, None) fresh
     = (False, (1, Some ''(fd0)/grub.cfg''),
        fresh\<lparr>out := '' fd0'', touched := [FileOpen ''(fd0)/grub.cfg''], mm_calls := 1\<rparr>) \<and>
   grub_errno fresh = GRUB_ERR_NONE \<and>
   fs_attribute demo_platform False ''hd1'' = Some ''MYUSB'' \<and>
   search_fs_iterate_device demo_platform ''MYUSB'' None True False ''hd1'' 0 fresh
     = (False, 1, fresh\<lparr>out := '' hd1'', touched := [DeviceOpen ''hd1'']\<rparr>) \<and>
   realloc_ok demo_platform (mm_calls fresh) (length ''hd1'' + 2 + length ''/grub.cfg'' + 1) \<and>
   file_present demo_platform ''/grub.cfg'' ''hd1'' \<and>
   search_file_iterate_device demo_platform ''/grub.cfg'' (Some ''root'') True ''hd1'' (0, None) fresh
     = (True, (1, Some ''(hd1)/grub.cfg''),
        fresh\<lparr>env := [(''root'', ''hd1'')], touched := [FileOpen ''(hd1)/grub.cfg''],
          mm_calls := 1\<rparr>) \<and>
   out (snd (snd (grub_device_iterate (search_file_iterate_device demo_platform ''/grub.cfg'' None True)
      [''fd0'', ''hd1''] (0, None) fresh))) = '' hd1'' \<and>
   out (snd (snd (grub_device_iterate (search_file_iterate_device demo_platform ''/grub.cfg'' None False)
      [''fd0'', ''hd1''] (0, None) fresh))) = '' fd0 hd1''"
proof -
  have facts: "is_floppy ''fd0''" "\<not> is_floppy ''hd1''" "grub_errno fresh = GRUB_ERR_NONE"
    "mm_calls fresh = 0" "env fresh = []" "out fresh = []" "touched fresh = []"
    "\<And>i n. realloc_ok demo_platform i n"
    "file_present demo_platform ''/grub.cfg'' ''fd0''"
    "file_present demo_platform ''/grub.cfg'' ''hd1''"
    "fs_attribute demo_platform False ''hd1'' = Some ''MYUSB''"
    by (simp_all add: demo_defs is_floppy_def c_at_def file_present_def fs_attribute_def QUID_def)
  have ex: "search_fs_iterate_device demo_platform ''/grub.cfg'' None True False ''fd0'' 0 fresh
        = (False, 0, fresh) \<and>
      search_file_iterate_device demo_platform ''/grub.cfg'' None True ''fd0'' (0, None) fresh
        = (False, (0, None), fresh)"
    using floppy_filter [where name = "''fd0''" and no_floppy = True and P = demo_platform
        and key = "''/grub.cfg''" and var = None and is_uuid = False and count = 0 and s = fresh
        and c = "(0, None)"] facts(1)
    by blast
  have incl: "touched (snd (snd (search_fs_iterate_device demo_platform ''/grub.cfg'' None False False
          ''fd0'' 0 fresh))) = [DeviceOpen ''fd0''] \<and>
      touched (snd (snd (search_file_iterate_device demo_platform ''/grub.cfg'' None False ''fd0''
          (0, None) fresh))) = [FileOpen ''(fd0)/grub.cfg''] \<and>
      search_file_iterate_device demo_platform ''/grub.cfg'' None False ''fd0'' (0, None) fresh
        = (False, (1, Some ''(fd0)/grub.cfg''),
           fresh\<lparr>out := '' fd0'', touched := [FileOpen ''(fd0)/grub.cfg''], mm_calls := 1\<rparr>)"
    using floppy_filter [where name = "''fd0''" and no_floppy = False and P = demo_platform
        and key = "''/grub.cfg''" and var = None and is_uuid = False and count = 0 and s = fresh
        and c = "(0, None)" and buf = None]
    by (simp add: facts)
  have other_fs: "search_fs_iterate_device demo_platform ''MYUSB'' None True False ''hd1'' 0 fresh
        = (False, 1, fresh\<lparr>out := '' hd1'', touched := [DeviceOpen ''hd1'']\<rparr>)"
    using floppy_filter [where name = "''hd1''" and no_floppy = True and P = demo_platform
        and key = "''MYUSB''" and var = None and is_uuid = False and count = 0 and s = fresh
        and c = "(0, None)" and buf = None]
    by (simp add: facts)
  have other_file: "search_file_iterate_device demo_platform ''/grub.cfg'' (Some ''root'') True ''hd1''
        (0, None) fresh
        = (True, (1, Some ''(hd1)/grub.cfg''),
           fresh\<lparr>env := [(''root'', ''hd1'')], touched := [FileOpen ''(hd1)/grub.cfg''],
             mm_calls := 1\<rparr>)"
    using floppy_filter [where name = "''hd1''" and no_floppy = True and P = demo_platform
        and key = "''/grub.cfg''" and var = "Some ''root''" and is_uuid = False and count = 0
        and s = fresh and c = "(0, None)" and buf = None]
    by (simp add: facts)
  have runs: "out (snd (snd (grub_device_iterate
          (search_file_iterate_device demo_platform ''/grub.cfg'' None True)
          [''fd0'', ''hd1''] (0, None) fresh))) = '' hd1'' \<and>
      out (snd (snd (grub_device_iterate
          (search_file_iterate_device demo_platform ''/grub.cfg'' None False)
          [''fd0'', ''hd1''] (0, None) fresh))) = '' fd0 hd1''"
    by (simp add: demo_defs search_defs)
  show ?thesis
    using facts ex incl other_fs other_file runs by simp
qed

subsection \<open>The path opened in file mode\<close>

text \<open>
  Claim C8. In file mode the hook, on a device \<open>X\<close> that is not skipped and once its
  buffer is allocated, opens exactly the path \<open>(X)K\<close> for the key \<open>K\<close>, and that path
  is what the buffer then holds; with its terminator the path fills the
  \<^verbatim>\<open>strlen (name) + 2 + strlen (key) + 1\<close> bytes asked for.
\<close>

theorem file_path_construction:
  "\<not> (no_floppy \<and> is_floppy X) \<and> realloc_ok P (mm_calls s) (length X + 2 + length K + 1) \<longrightarrow>
     touched (snd (snd (search_file_iterate_device P K var no_floppy X (count, buf) s)))
       = touched s @ [FileOpen (''('' @ X @ '')'' @ K)] \<and>
     snd (fst (snd (search_file_iterate_device P K var no_floppy X (count, buf) s)))
       = Some (''('' @ X @ '')'' @ K) \<and>
     length (''('' @ X @ '')'' @ K) + 1 = grub_strlen X + 2 + grub_strlen K + 1"
  by (auto simp: search_file_iterate_device_def grub_realloc_def grub_strlen_def
      grub_file_open_def device_path_def raised_def found_def grub_env_set_def
      grub_printf_def Let_def
      split: sum.splits option.splits prod.splits)

theorem file_path_construction_witness:
  "\<not> (False \<and> is_floppy ''hd0'') \<and>
   realloc_ok demo_platform (mm_calls fresh) (length ''hd0'' + 2 + length ''/boot/grub/grub.cfg'' + 1) \<and>
   touched (snd (snd (search_file_iterate_device demo_platform ''/boot/grub/grub.cfg'' None False
      ''hd0'' (0, None) fresh))) = [FileOpen ''(hd0)/boot/grub/grub.cfg''] \<and>
   snd (fst (snd (search_file_iterate_device demo_platform ''/boot/grub/grub.cfg'' None False
      ''hd0'' (0, None) fresh))) = Some ''(hd0)/boot/grub/grub.cfg''"
  using file_path_construction [where no_floppy = False and X = "''hd0''" and P = demo_platform
      and s = fresh and K = "''/boot/grub/grub.cfg''" and var = None and count = 0 and buf = None]
  by (simp add: demo_defs)

subsection \<open>Precedence of the mode flags\<close>

text \<open>
  Claim C9. When several mode flags are set, the label flag wins over the UUID flag,
  which wins over the file flag: with the label flag the command is the search by label,
  with the UUID flag and no label flag it is the search by UUID, and only with neither
  of them the file flag selects the search by file.
\<close>

theorem mode_precedence:
  "args \<noteq> [] \<longrightarrow>
     (let var = (if is_set (state SEARCH_SET)
                 then Some (case arg (state SEARCH_SET) of Some a \<Rightarrow> a | None \<Rightarrow> ''root'')
                 else None);
          no_floppy = is_set (state SEARCH_NO_FLOPPY);
          key = hd args;
          result = snd (grub_cmd_search P state args s)
      in (is_set (state SEARCH_LABEL) \<longrightarrow> result = search_fs P key var no_floppy False s) \<and>
         (\<not> is_set (state SEARCH_LABEL) \<and> is_set (state SEARCH_FS_UUID) \<longrightarrow>
            result = search_fs P key var no_floppy True s) \<and>
         (\<not> is_set (state SEARCH_LABEL) \<and> \<not> is_set (state SEARCH_FS_UUID) \<and>
          is_set (state SEARCH_FILE) \<longrightarrow>
            result = search_file P key var no_floppy s))"
  by (cases args) (simp_all add: grub_cmd_search_def Let_def)

theorem mode_precedence_witness:
  "[''MYUSB''] \<noteq> [] \<and>
   out (snd (grub_cmd_search demo_platform (parsed [SEARCH_FILE, SEARCH_FS_UUID, SEARCH_LABEL] None)
      [''MYUSB''] fresh)) = '' hd1'' \<and>
   snd (grub_cmd_search demo_platform (parsed [SEARCH_FILE, SEARCH_FS_UUID, SEARCH_LABEL] None)
      [''MYUSB''] fresh) = search_fs demo_platform ''MYUSB'' None False False fresh \<and>
   snd (grub_cmd_search demo_platform (parsed [SEARCH_FILE, SEARCH_FS_UUID] None)
      [''ABCD-1234''] fresh) = search_fs demo_platform ''ABCD-1234'' None False True fresh \<and>
   touched (snd (grub_cmd_search demo_platform (parsed [SEARCH_FILE, SEARCH_FS_UUID] None)
      [''ABCD-1234''] fresh)) = [DeviceOpen ''hd0'', DeviceOpen ''hd1'', DeviceOpen ''fd0'']"
  using mode_precedence [where args = "[''MYUSB'']" and P = demo_platform and s = fresh
      and state = "parsed [SEARCH_FILE, SEARCH_FS_UUID, SEARCH_LABEL] None"]
    mode_precedence [where args = "[''ABCD-1234'']" and P = demo_platform and s = fresh
      and state = "parsed [SEARCH_FILE, SEARCH_FS_UUID] None"]
  by (simp add: demo_defs search_defs)

subsection \<open>Running out of memory in file mode\<close>

text \<open>
  Claim C10. In file mode, when the buffer for a device's path cannot be allocated, the
  hook asks for an abort without counting a match, so the enumeration stops there: the
  devices after it are not opened, whether or not the file is on them, and the search
  ends with the allocator's error \<open>GRUB_ERR_OUT_OF_MEMORY\<close> pending, which is what
  the command then returns, and not with \<open>GRUB_ERR_FILE_NOT_FOUND\<close>.
\<close>

theorem allocation_failure_aborts:
  assumes "devices P = pre @ name # post"
    and "grub_device_iterate (search_file_iterate_device P key var no_floppy) pre (0, None) s
           = (False, (count, buf), s1)"
    and "\<not> (no_floppy \<and> is_floppy name)"
    and "\<not> realloc_ok P (mm_calls s1) (length name + 2 + length key + 1)"
  shows "search_file_iterate_device P key var no_floppy name (count, buf) s1 =
           (True, (count, buf),
            s1\<lparr>grub_errno := GRUB_ERR_OUT_OF_MEMORY, mm_calls := Suc (mm_calls s1)\<rparr>) \<and>
         search_file_enumerate P key var no_floppy s =
           (True, (count, buf),
            s1\<lparr>grub_errno := GRUB_ERR_OUT_OF_MEMORY, mm_calls := Suc (mm_calls s1)\<rparr>) \<and>
         search_file P key var no_floppy s =
           s1\<lparr>grub_errno := GRUB_ERR_OUT_OF_MEMORY, mm_calls := Suc (mm_calls s1)\<rparr> \<and>
         touched (search_file P key var no_floppy s) = touched s1 \<and>
         grub_errno (search_file P key var no_floppy s) = GRUB_ERR_OUT_OF_MEMORY"
proof -
  have ns: "\<not> skipped no_floppy name" using assms(3) by (simp add: skipped_def)
  have hook: "search_file_iterate_device P key var no_floppy name (count, buf) s1 =
           (True, (count, buf),
            s1\<lparr>grub_errno := GRUB_ERR_OUT_OF_MEMORY, mm_calls := Suc (mm_calls s1)\<rparr>)"
    using ns assms(4) by (rule file_hook_nomem)
  have enum: "search_file_enumerate P key var no_floppy s =
           (True, (count, buf),
            s1\<lparr>grub_errno := GRUB_ERR_OUT_OF_MEMORY, mm_calls := Suc (mm_calls s1)\<rparr>)"
    by (simp add: search_file_enumerate_def assms(1) iterate_append assms(2) hook)
  show ?thesis
    using hook enum by (simp add: search_file_def)
qed

theorem allocation_failure_aborts_witness:
  "devices demo_platform_lowmem = [''hd0''] @ ''hd1'' # [''fd0''] \<and>
   grub_device_iterate (search_file_iterate_device demo_platform_lowmem ''/grub.cfg'' None False)
       [''hd0''] (0, None) fresh
     = (False, (0, Some ''(hd0)/grub.cfg''),
        fresh\<lparr>touched := [FileOpen ''(hd0)/grub.cfg''], mm_calls := 1\<rparr>) \<and>
   \<not> (False \<and> is_floppy ''hd1'') \<and>
   \<not> realloc_ok demo_platform_lowmem 1 (length ''hd1'' + 2 + length ''/grub.cfg'' + 1) \<and>
   file_present demo_platform_lowmem ''/grub.cfg'' ''hd1'' \<and>
   file_present demo_platform_lowmem ''/grub.cfg'' ''fd0'' \<and>
   search_file demo_platform_lowmem ''/grub.cfg'' None False fresh
     = fresh\<lparr>grub_errno := GRUB_ERR_OUT_OF_MEMORY, touched := [FileOpen ''(hd0)/grub.cfg''],
         mm_calls := 2\<rparr> \<and>
   fst (grub_cmd_search demo_platform_lowmem (parsed [SEARCH_FILE] None) [''/grub.cfg''] fresh)
     = GRUB_ERR_OUT_OF_MEMORY"
  using allocation_failure_aborts [where P = demo_platform_lowmem and pre = "[''hd0'']"
      and name = "''hd1''" and post = "[''fd0'']" and key = "''/grub.cfg''" and var = None
      and no_floppy = False and s = fresh and count = 0 and buf = "Some ''(hd0)/grub.cfg''"
      and ?s1.0 = "fresh\<lparr>touched := [FileOpen ''(hd0)/grub.cfg''], mm_calls := 1\<rparr>"]
  by (simp add: demo_defs demo_platform_lowmem_def search_defs file_present_def)

end
